theory Spec2Isabelle
  imports Complex_Main "HOL-Library.AList"
begin

section \<open>Rate forecasting and competitive insight: a model of \<open>services/ml_forecasting.py\<close>\<close>

text \<open>
  Conventions of the embedding.
  \<^item> Python floats are modelled as \<open>real\<close>; a missing value (\<open>NaN\<close>, \<open>None\<close>) of a
    pandas column is \<open>None\<close> of \<open>real option\<close>. Rounding and infinities are outside the
    model.
  \<^item> An exception is a value \<open>Inl e\<close> of a sum type; \<open>try ... except Exception\<close> is a
    case distinction on it.
  \<^item> Objects that the methods mutate (\<open>self\<close>, the directory of saved models) are passed
    in and returned.
  \<^item> The libraries the module calls (scikit-learn, Prophet, the calendar accessors of
    pandas) are parameters of the model: records of functions.
\<close>

subsection \<open>Exceptions\<close>

datatype error =
    ValueError | TypeError | AttributeError | KeyError | ZeroDivisionError
  | FileNotFoundError | NotFittedError | LibraryError

subsection \<open>Market insights\<close>

definition mean :: "real list \<Rightarrow> real" where
  "mean xs = sum_list xs / real (length xs)"

text \<open>\<open>ForecastingService._generate_recommendations\<close>; the caller passes a non-empty
  series of competitor rates.\<close>

definition generate_recommendations :: "real \<Rightarrow> real list \<Rightarrow> string list" where
  "generate_recommendations target_rate competitor_rates =
     (let competitor_avg = mean competitor_rates;
          competitor_min = Min (set competitor_rates);
          competitor_max = Max (set competitor_rates)
      in (if target_rate > competitor_avg * 1.1
            then [''Consider reducing rates to be more competitive'']
          else if target_rate < competitor_avg * 0.9
            then [''Opportunity to increase rates while remaining competitive'']
          else [''Current pricing is well-positioned vs competitors''])
         @
         (if target_rate > competitor_max
            then [''You're pricing above all competitors - monitor demand closely'']
          else if target_rate < competitor_min
            then [''You're pricing below all competitors - potential revenue opportunity'']
          else []))"

text \<open>The dictionary that \<open>get_market_insights\<close> builds.\<close>

record insights =
  avg_rate :: real
  competitor_avg_rate :: real
  rate_advantage :: real
  market_position :: real
  price_percentile :: real
  recommendations :: "string list"

text \<open>Python's \<open>a / b\<close> on floats raises on a zero divisor.\<close>

definition py_truediv :: "real \<Rightarrow> real \<Rightarrow> error + real" where
  "py_truediv a b = (if b = 0 then Inl ZeroDivisionError else Inr (a / b))"

text \<open>\<open>float(s)\<close> on a pandas Series: the single element of a series of length one,
  \<open>TypeError\<close> for any other length. The series here holds booleans.\<close>

definition float_of_series :: "bool list \<Rightarrow> error + real" where
  "float_of_series s = (case s of [b] \<Rightarrow> Inr (if b then 1 else 0) | _ \<Rightarrow> Inl TypeError)"

text \<open>\<open>x.mean()\<close> on a Python float: the attribute does not exist.\<close>

definition float_mean :: "real \<Rightarrow> error + real" where
  "float_mean x = Inl AttributeError"

text \<open>
  The body of the \<open>try\<close> block of \<open>get_market_insights\<close>. The two database queries are
  inputs: whether the hotel exists, and the \<open>(rate, hotel_id)\<close> pairs of every recent rate
  row of a hotel at the same location (the target hotel's own rows included). \<open>None\<close> is
  the empty dictionary. The entries of the dictionary literal are evaluated in source
  order, so an exception in one of them skips the later ones.
\<close>

definition market_insights_body :: "bool \<Rightarrow> (real \<times> int) list \<Rightarrow> int \<Rightarrow> error + insights option" where
  "market_insights_body hotel_found competitor_rows hotel_id =
     (if \<not> hotel_found then Inr None
      else if competitor_rows = [] then Inr None
      else
        let target_rates = map fst (filter (\<lambda>r. snd r = hotel_id) competitor_rows);
            competitor_rates = map fst (filter (\<lambda>r. snd r \<noteq> hotel_id) competitor_rows)
        in if length target_rates > 0 \<and> length competitor_rates > 0 then
             (case py_truediv (mean target_rates) (mean competitor_rates) of
                Inl e \<Rightarrow> Inl e
              | Inr position \<Rightarrow>
                 (case float_of_series (map (\<lambda>c. mean target_rates > c) competitor_rates) of
                    Inl e \<Rightarrow> Inl e
                  | Inr f \<Rightarrow>
                     (case float_mean f of
                        Inl e \<Rightarrow> Inl e
                      | Inr m \<Rightarrow>
                          Inr (Some \<lparr>avg_rate = mean target_rates,
                                     competitor_avg_rate = mean competitor_rates,
                                     rate_advantage = mean target_rates - mean competitor_rates,
                                     market_position = position,
                                     price_percentile = m * 100,
                                     recommendations =
                                       generate_recommendations (mean target_rates) competitor_rates\<rparr>))))
           else Inr None)"

text \<open>\<open>get_market_insights\<close>: an exception of the body is logged and the empty dictionary
  returned.\<close>

definition get_market_insights :: "bool \<Rightarrow> (real \<times> int) list \<Rightarrow> int \<Rightarrow> insights option" where
  "get_market_insights hotel_found competitor_rows hotel_id =
     (case market_insights_body hotel_found competitor_rows hotel_id of
        Inl e \<Rightarrow> None
      | Inr r \<Rightarrow> r)"

subsection \<open>Data frames\<close>

text \<open>
  A pandas column has a dtype; its values are numbers or missing. A frame has a
  \<open>date\<close> column (timestamps in seconds), a \<open>rate\<close> column (float64), possibly a
  \<open>hotel_id\<close> column, and further columns: \<open>cols\<close> lists their names and dtypes in
  column order, and \<open>cells r name\<close> is the value of row \<open>r\<close> in the column \<open>name\<close>.
  \<open>df[name] = values\<close> replaces a column of that name in place, or appends a new one
  (\<open>AList.update\<close>).
\<close>

datatype dtype = Int64 | Int32 | UInt32 | Float64 | Bool | Object | Datetime64

type_synonym cell = "real option"

record row =
  rdate :: int
  rrate :: cell
  cells :: "string \<Rightarrow> cell"

record frame =
  rows :: "row list"
  has_hotel_id :: bool
  cols :: "(string \<times> dtype) list"

definition df_empty :: "frame \<Rightarrow> bool" where
  "df_empty df \<longleftrightarrow> rows df = []"

definition col :: "string \<Rightarrow> frame \<Rightarrow> cell list" where
  "col name df = map (\<lambda>r. cells r name) (rows df)"

definition set_col :: "string \<Rightarrow> dtype \<Rightarrow> cell list \<Rightarrow> frame \<Rightarrow> frame" where
  "set_col name dt vs df =
     df\<lparr>cols := AList.update name dt (cols df),
        rows := map (\<lambda>(r, v). r\<lparr>cells := (cells r)(name := v)\<rparr>) (zip (rows df) vs)\<rparr>"

text \<open>\<open>df.sort_values('date')\<close>. Rows of equal date keep their order here; pandas leaves
  their order open.\<close>

definition sort_values :: "frame \<Rightarrow> frame" where
  "sort_values df = df\<lparr>rows := sort_key rdate (rows df)\<rparr>"

text \<open>The observations of a list of cells that are not missing.\<close>

fun valid :: "cell list \<Rightarrow> real list" where
  "valid [] = []"
| "valid (None # xs) = valid xs"
| "valid (Some v # xs) = v # valid xs"

text \<open>Arithmetic of columns: a missing operand gives a missing result. A division by
  zero gives \<open>NaN\<close> or an infinity in numpy; both are missing here.\<close>

definition cell_sub :: "cell \<Rightarrow> cell \<Rightarrow> cell" where
  "cell_sub a b = (case (a, b) of (Some x, Some y) \<Rightarrow> Some (x - y) | _ \<Rightarrow> None)"

definition cell_div :: "cell \<Rightarrow> cell \<Rightarrow> cell" where
  "cell_div a b =
     (case (a, b) of (Some x, Some y) \<Rightarrow> (if y = 0 then None else Some (x / y)) | _ \<Rightarrow> None)"

text \<open>Decimal digits of a number, for the f-strings.\<close>

fun str_nat :: "nat \<Rightarrow> string" where
  "str_nat n =
     (if n < 10 then [''0123456789'' ! n]
      else str_nat (n div 10) @ [''0123456789'' ! (n mod 10)])"

definition str_int :: "int \<Rightarrow> string" where
  "str_int i = (if i < 0 then ''-'' @ str_nat (nat (- i)) else str_nat (nat i))"

subsection \<open>Feature engineering\<close>

text \<open>
  The calendar accessors of pandas (\<open>.dt.year\<close> and so on) are functions of the timestamp;
  \<open>dt_dtype\<close> is the dtype of the columns they return (int64 before pandas 2, int32 from
  then on). The ISO week is a UInt32 column in every version.
\<close>

record calendar =
  year_of :: "int \<Rightarrow> int"
  month_of :: "int \<Rightarrow> int"
  day_of :: "int \<Rightarrow> int"
  weekday_of :: "int \<Rightarrow> int"
  dayofyear_of :: "int \<Rightarrow> int"
  week_of :: "int \<Rightarrow> int"
  quarter_of :: "int \<Rightarrow> int"
  dt_dtype :: dtype

text \<open>
  The feature functions are sequences of column assignments \<open>df[name] = f(df)\<close>, each
  reading the frame as the assignments before it left it. A step is the name, the dtype
  of the values and the function that computes them.
\<close>

type_synonym step = "string \<times> dtype \<times> (frame \<Rightarrow> cell list)"

definition assign :: "step \<Rightarrow> frame \<Rightarrow> frame" where
  "assign s df = (case s of (name, dt, f) \<Rightarrow> set_col name dt (f df) df)"

definition assign_all :: "step list \<Rightarrow> frame \<Rightarrow> frame" where
  "assign_all steps df = fold assign steps df"

text \<open>A step is well formed when it computes one value for every row.\<close>

definition step_ok :: "step \<Rightarrow> bool" where
  "step_ok s \<longleftrightarrow> (\<forall>df. length (snd (snd s) df) = length (rows df))"

definition dt_col :: "(int \<Rightarrow> int) \<Rightarrow> frame \<Rightarrow> cell list" where
  "dt_col f df = map (\<lambda>r. Some (real_of_int (f (rdate r)))) (rows df)"

definition date_steps :: "calendar \<Rightarrow> step list" where
  "date_steps cal =
     [(''year'', dt_dtype cal, dt_col (year_of cal)),
      (''month'', dt_dtype cal, dt_col (month_of cal)),
      (''day'', dt_dtype cal, dt_col (day_of cal)),
      (''weekday'', dt_dtype cal, dt_col (weekday_of cal)),
      (''is_weekend'', Int64,
         \<lambda>df. map (\<lambda>w. Some (if w = Some 5 \<or> w = Some 6 then 1 else 0)) (col ''weekday'' df)),
      (''day_of_year'', dt_dtype cal, dt_col (dayofyear_of cal)),
      (''week_of_year'', UInt32, dt_col (week_of cal)),
      (''quarter'', dt_dtype cal, dt_col (quarter_of cal)),
      (''sin_month'', Float64,
         \<lambda>df. map (map_option (\<lambda>m. sin (2 * pi * m / 12))) (col ''month'' df)),
      (''cos_month'', Float64,
         \<lambda>df. map (map_option (\<lambda>m. cos (2 * pi * m / 12))) (col ''month'' df)),
      (''sin_weekday'', Float64,
         \<lambda>df. map (map_option (\<lambda>w. sin (2 * pi * w / 7))) (col ''weekday'' df)),
      (''cos_weekday'', Float64,
         \<lambda>df. map (map_option (\<lambda>w. cos (2 * pi * w / 7))) (col ''weekday'' df))]"

definition extract_date_features :: "calendar \<Rightarrow> frame \<Rightarrow> frame" where
  "extract_date_features cal df = assign_all (date_steps cal) df"

text \<open>\<open>Series.shift(k)\<close>: every value moves \<open>k\<close> positions down, the first \<open>k\<close> positions
  are missing.\<close>

definition shift :: "nat \<Rightarrow> cell list \<Rightarrow> cell list" where
  "shift k xs = take (length xs) (replicate k None @ xs)"

definition lag_step :: "nat \<Rightarrow> step" where
  "lag_step lag = (''rate_lag_'' @ str_nat lag, Float64, \<lambda>df. shift lag (map rrate (rows df)))"

definition add_lag_features :: "nat list \<Rightarrow> frame \<Rightarrow> frame" where
  "add_lag_features lags df = assign_all (map lag_step lags) (sort_values df)"

text \<open>
  \<open>Series.rolling(window=w, min_periods=1)\<close>: the statistic at position \<open>i\<close> is taken over
  the observations among the last \<open>w\<close> positions up to \<open>i\<close> that are not missing; it is
  missing when there is none (for the sample standard deviation: fewer than two).
\<close>

definition window :: "nat \<Rightarrow> cell list \<Rightarrow> nat \<Rightarrow> real list" where
  "window w xs i = valid (drop (Suc i - w) (take (Suc i) xs))"

definition rolling :: "nat \<Rightarrow> (real list \<Rightarrow> cell) \<Rightarrow> cell list \<Rightarrow> cell list" where
  "rolling w f xs = map (\<lambda>i. f (window w xs i)) [0..<length xs]"

definition roll_mean :: "real list \<Rightarrow> cell" where
  "roll_mean vs = (if vs = [] then None else Some (mean vs))"

definition roll_std :: "real list \<Rightarrow> cell" where
  "roll_std vs =
     (if length vs < 2 then None
      else Some (sqrt (sum_list (map (\<lambda>v. (v - mean vs)\<^sup>2) vs) / (real (length vs) - 1))))"

definition roll_min :: "real list \<Rightarrow> cell" where
  "roll_min vs = (if vs = [] then None else Some (Min (set vs)))"

definition roll_max :: "real list \<Rightarrow> cell" where
  "roll_max vs = (if vs = [] then None else Some (Max (set vs)))"

definition rolling_steps :: "nat \<Rightarrow> step list" where
  "rolling_steps w =
     [(''rate_rolling_mean_'' @ str_nat w, Float64, \<lambda>df. rolling w roll_mean (map rrate (rows df))),
      (''rate_rolling_std_'' @ str_nat w, Float64, \<lambda>df. rolling w roll_std (map rrate (rows df))),
      (''rate_rolling_min_'' @ str_nat w, Float64, \<lambda>df. rolling w roll_min (map rrate (rows df))),
      (''rate_rolling_max_'' @ str_nat w, Float64, \<lambda>df. rolling w roll_max (map rrate (rows df)))]"

definition add_rolling_features :: "nat list \<Rightarrow> frame \<Rightarrow> frame" where
  "add_rolling_features windows df =
     assign_all (concat (map rolling_steps windows)) (sort_values df)"

text \<open>
  \<open>df.groupby('date')['rate']\<close>: the rates of the rows of one date that are not missing.
  \<open>rank\<close> gives tied values the average of their ranks and leaves a missing rate without
  a rank; \<open>rank(pct=True)\<close> divides the ascending rank by the size of the group.
\<close>

definition date_group :: "frame \<Rightarrow> row \<Rightarrow> real list" where
  "date_group df r = valid (map rrate (filter (\<lambda>q. rdate q = rdate r) (rows df)))"

definition rank_desc :: "real list \<Rightarrow> real \<Rightarrow> real" where
  "rank_desc g v =
     real (length (filter (\<lambda>u. u > v) g)) + (real (length (filter (\<lambda>u. u = v) g)) + 1) / 2"

definition rank_pct :: "real list \<Rightarrow> real \<Rightarrow> real" where
  "rank_pct g v =
     (real (length (filter (\<lambda>u. u < v) g)) + (real (length (filter (\<lambda>u. u = v) g)) + 1) / 2)
       / real (length g)"

definition competitive_steps :: "step list" where
  "competitive_steps =
     [(''rate_rank'', Float64,
         \<lambda>df. map (\<lambda>r. map_option (rank_desc (date_group df r)) (rrate r)) (rows df)),
      (''rate_percentile'', Float64,
         \<lambda>df. map (\<lambda>r. map_option (rank_pct (date_group df r)) (rrate r)) (rows df)),
      (''competitor_avg_rate'', Float64,
         \<lambda>df. map (\<lambda>r. roll_mean (date_group df r)) (rows df)),
      (''rate_vs_avg'', Float64,
         \<lambda>df. map2 cell_sub (map rrate (rows df)) (col ''competitor_avg_rate'' df)),
      (''rate_vs_avg_pct'', Float64,
         \<lambda>df. map (map_option (\<lambda>x. x * 100))
                (map2 cell_div
                   (map2 cell_sub (map rrate (rows df)) (col ''competitor_avg_rate'' df))
                   (col ''competitor_avg_rate'' df)))]"

definition add_competitive_features :: "frame \<Rightarrow> frame" where
  "add_competitive_features df =
     (if has_hotel_id df then assign_all competitive_steps df else df)"

subsection \<open>\<open>RateForecastingModel.prepare_data\<close>\<close>

definition exclude_cols :: "string list" where
  "exclude_cols = [''date'', ''rate'', ''hotel_id'', ''source'', ''room_type'', ''scraped_at'']"

text \<open>\<open>fillna(method='ffill')\<close> along a column, then \<open>fillna(0)\<close>.\<close>

fun ffill_from :: "cell \<Rightarrow> cell list \<Rightarrow> cell list" where
  "ffill_from prev [] = []"
| "ffill_from prev (None # xs) = prev # ffill_from prev xs"
| "ffill_from prev (Some v # xs) = Some v # ffill_from (Some v) xs"

definition ffill :: "cell list \<Rightarrow> cell list" where
  "ffill xs = ffill_from None xs"

definition fillna :: "real \<Rightarrow> cell \<Rightarrow> real" where
  "fillna d c = (case c of None \<Rightarrow> d | Some v \<Rightarrow> v)"

text \<open>
  The result of \<open>prepare_data\<close>: the frame \<open>X\<close> of the features (its column names and its
  rows) and the series \<open>y\<close> of the rates, both in the order of the sorted frame. The
  method also stores the names in \<open>self.feature_columns\<close>; \<open>train\<close> and \<open>predict\<close> below
  do that with \<open>X_cols\<close>. The lags and windows are the defaults of the source.
\<close>

record prepared =
  X_cols :: "string list"
  X :: "real list list"
  y :: "cell list"

definition engineered :: "calendar \<Rightarrow> frame \<Rightarrow> frame" where
  "engineered cal df =
     add_competitive_features
       (add_rolling_features [7, 14, 30]
          (add_lag_features [1, 7, 30]
             (extract_date_features cal df)))"

definition feature_cols :: "frame \<Rightarrow> string list" where
  "feature_cols df =
     map fst (filter (\<lambda>(c, dt). c \<notin> set exclude_cols \<and> (dt = Int64 \<or> dt = Float64)) (cols df))"

definition filled :: "frame \<Rightarrow> string \<Rightarrow> real list" where
  "filled df c = map (fillna 0) (ffill (col c df))"

definition prepare_data :: "calendar \<Rightarrow> frame \<Rightarrow> prepared" where
  "prepare_data cal df0 =
     (let df = engineered cal df0
      in \<lparr>X_cols = feature_cols df,
          X = map (\<lambda>i. map (\<lambda>c. filled df c ! i) (feature_cols df)) [0..<length (rows df)],
          y = map rrate (rows df)\<rparr>)"

text \<open>The observation of a row: its date and rate.\<close>

definition obs :: "row \<Rightarrow> int \<times> cell" where
  "obs r = (rdate r, rrate r)"

text \<open>The columns that a sequence of assignments leaves, and the names of the features
  of a frame with no further column, a \<open>hotel_id\<close> column and int64 calendar columns.\<close>

definition step_cols :: "step list \<Rightarrow> (string \<times> dtype) list \<Rightarrow> (string \<times> dtype) list" where
  "step_cols steps cs = fold (\<lambda>s. AList.update (fst s) (fst (snd s))) steps cs"

definition default_features :: "string list" where
  "default_features =
     [''year'', ''month'', ''day'', ''weekday'', ''is_weekend'', ''day_of_year'', ''quarter'',
      ''sin_month'', ''cos_month'', ''sin_weekday'', ''cos_weekday'',
      ''rate_lag_1'', ''rate_lag_7'', ''rate_lag_30'',
      ''rate_rolling_mean_7'', ''rate_rolling_std_7'', ''rate_rolling_min_7'', ''rate_rolling_max_7'',
      ''rate_rolling_mean_14'', ''rate_rolling_std_14'', ''rate_rolling_min_14'', ''rate_rolling_max_14'',
      ''rate_rolling_mean_30'', ''rate_rolling_std_30'', ''rate_rolling_min_30'', ''rate_rolling_max_30'',
      ''rate_rank'', ''rate_percentile'', ''competitor_avg_rate'', ''rate_vs_avg'', ''rate_vs_avg_pct'']"

subsection \<open>The libraries\<close>

text \<open>
  scikit-learn as the module uses it: \<open>StandardScaler.fit\<close> and \<open>transform\<close> on a frame (its
  column names and rows), and \<open>fit\<close> and \<open>predict\<close> of the random forest regressor, whose
  \<open>random_state\<close> is fixed. Every call may raise. \<open>'sc\<close> is a fitted scaler, \<open>'rf\<close> a fitted
  forest.
\<close>

record ('sc, 'rf) sklearn =
  scaler_fit :: "string list \<Rightarrow> real list list \<Rightarrow> error + 'sc"
  scaler_transform :: "'sc \<Rightarrow> string list \<Rightarrow> real list list \<Rightarrow> error + real list list"
  forest_fit :: "real list list \<Rightarrow> cell list \<Rightarrow> error + 'rf"
  forest_predict :: "'rf \<Rightarrow> real list list \<Rightarrow> error + real list"

text \<open>Prophet: whether the import succeeded, \<open>fit\<close> on the \<open>(ds, y)\<close> pairs, and \<open>predict\<close> on
  a list of dates, which returns one row per date.\<close>

record forecast_row =
  ds :: int
  yhat :: real
  yhat_lower :: real
  yhat_upper :: real

record 'pm prophet_lib =
  PROPHET_AVAILABLE :: bool
  prophet_fit :: "(int \<times> real) list \<Rightarrow> error + 'pm"
  prophet_predict :: "'pm \<Rightarrow> int list \<Rightarrow> error + forecast_row list"

subsection \<open>The dataclasses\<close>

text \<open>\<open>ForecastResult\<close>; its field \<open>model_name\<close> is \<open>forecast_model_name\<close> here, the name
  \<open>model_name\<close> being the attribute of the model classes.\<close>

record ForecastResult =
  date :: int
  predicted_rate :: real
  confidence_lower :: real
  confidence_upper :: real
  forecast_model_name :: string

record ModelMetrics =
  mae :: real
  mse :: real
  rmse :: real
  mape :: real

subsection \<open>\<open>RandomForestForecastingModel\<close>\<close>

text \<open>The attributes of the object. \<open>None\<close> in \<open>model\<close> and \<open>scaler\<close> is the estimator that
  has not been fitted.\<close>

record ('sc, 'rf) rf_model =
  model_name :: string
  model :: "'rf option"
  scaler :: "'sc option"
  feature_columns :: "string list"
  is_trained :: bool

definition new_rf_model :: "('sc, 'rf) rf_model" where
  "new_rf_model =
     \<lparr>model_name = ''Random Forest'', model = None, scaler = None,
      feature_columns = [], is_trained = False\<rparr>"

text \<open>
  \<open>_calculate_metrics\<close>. The metric functions of scikit-learn reject an empty input, a
  missing value and inputs of different lengths. A zero rate makes the quotient of
  \<open>mape\<close> infinite in numpy; here it is the quotient of the reals.
\<close>

definition calculate_metrics :: "cell list \<Rightarrow> real list \<Rightarrow> error + ModelMetrics" where
  "calculate_metrics y_true y_pred =
     (if y_true = [] then Inl ValueError
      else if None \<in> set y_true then Inl ValueError
      else if length y_true \<noteq> length y_pred then Inl ValueError
      else
        (let t = valid y_true;
             the_mse = mean (map2 (\<lambda>a b. (a - b)\<^sup>2) t y_pred)
         in Inr \<lparr>mae = mean (map2 (\<lambda>a b. \<bar>a - b\<bar>) t y_pred),
                 mse = the_mse,
                 rmse = sqrt the_mse,
                 mape = mean (map2 (\<lambda>a b. \<bar>(a - b) / a\<bar>) t y_pred) * 100\<rparr>))"

text \<open>
  \<open>train\<close>. \<open>int(0.8 * len(X))\<close> is \<open>4 * len(X) div 5\<close>: the double nearest to 0.8 lies
  above it by less than \<open>10\<^sup>-\<^sup>1\<^sup>6\<close>, so the product rounds to the integer when \<open>len(X)\<close> is a
  multiple of five and stays strictly between two integers otherwise. \<open>fit_transform\<close> is
  \<open>fit\<close> followed by \<open>transform\<close>. The result is the value returned or the exception
  raised, and the object as the call leaves it.
\<close>

definition train ::
  "calendar \<Rightarrow> ('sc, 'rf) sklearn \<Rightarrow> ('sc, 'rf) rf_model \<Rightarrow> frame
     \<Rightarrow> (error + ModelMetrics) \<times> ('sc, 'rf) rf_model" where
  "train cal lib self0 df =
     (let p = prepare_data cal df;
          self1 = self0\<lparr>feature_columns := X_cols p\<rparr>;
          train_size = (4 * length (X p)) div 5;
          X_train = take train_size (X p);
          X_test = drop train_size (X p);
          y_train = take train_size (y p);
          y_test = drop train_size (y p)
      in case scaler_fit lib (X_cols p) X_train of
           Inl e \<Rightarrow> (Inl e, self1)
         | Inr sc \<Rightarrow>
            (let self2 = self1\<lparr>scaler := Some sc\<rparr>
             in case scaler_transform lib sc (X_cols p) X_train of
                  Inl e \<Rightarrow> (Inl e, self2)
                | Inr X_train_scaled \<Rightarrow>
                   (case scaler_transform lib sc (X_cols p) X_test of
                      Inl e \<Rightarrow> (Inl e, self2)
                    | Inr X_test_scaled \<Rightarrow>
                       (case forest_fit lib X_train_scaled y_train of
                          Inl e \<Rightarrow> (Inl e, self2)
                        | Inr m \<Rightarrow>
                           (let self3 = self2\<lparr>model := Some m, is_trained := True\<rparr>
                            in case forest_predict lib m X_test_scaled of
                                 Inl e \<Rightarrow> (Inl e, self3)
                               | Inr y_pred \<Rightarrow>
                                  (case calculate_metrics y_test y_pred of
                                     Inl e \<Rightarrow> (Inl e, self3)
                                   | Inr metrics \<Rightarrow> (Inr metrics, self3)))))))"

text \<open>\<open>X[names]\<close>: the columns of the given names, in the given order; \<open>KeyError\<close> when
  a name is not a column.\<close>

fun index_of :: "'a \<Rightarrow> 'a list \<Rightarrow> nat" where
  "index_of x [] = 0"
| "index_of x (z # zs) = (if x = z then 0 else Suc (index_of x zs))"

definition select_cols :: "string list \<Rightarrow> prepared \<Rightarrow> error + real list list" where
  "select_cols names p =
     (if list_all (\<lambda>c. c \<in> set (X_cols p)) names
      then Inr (map (\<lambda>r. map (\<lambda>c. r ! index_of c (X_cols p)) names) (X p))
      else Inl KeyError)"

text \<open>\<open>predict\<close>. \<open>prepare_data\<close> has stored the names of the frame at hand in
  \<open>self.feature_columns\<close> before \<open>X[self.feature_columns]\<close> reads them.\<close>

definition predict ::
  "calendar \<Rightarrow> ('sc, 'rf) sklearn \<Rightarrow> ('sc, 'rf) rf_model \<Rightarrow> frame
     \<Rightarrow> (error + real list) \<times> ('sc, 'rf) rf_model" where
  "predict cal lib self0 df =
     (if \<not> is_trained self0 then (Inl ValueError, self0)
      else
        (let p = prepare_data cal df;
             self1 = self0\<lparr>feature_columns := X_cols p\<rparr>
         in case select_cols (feature_columns self1) p of
              Inl e \<Rightarrow> (Inl e, self1)
            | Inr Xs \<Rightarrow>
               (case scaler self1 of
                  None \<Rightarrow> (Inl NotFittedError, self1)
                | Some sc \<Rightarrow>
                   (case scaler_transform lib sc (feature_columns self1) Xs of
                      Inl e \<Rightarrow> (Inl e, self1)
                    | Inr X_scaled \<Rightarrow>
                       (case model self1 of
                          None \<Rightarrow> (Inl NotFittedError, self1)
                        | Some m \<Rightarrow> (forest_predict lib m X_scaled, self1))))))"

subsection \<open>\<open>save_model\<close> and \<open>load_model\<close>\<close>

text \<open>The dictionary that \<open>joblib\<close> writes, and the directory of the saved files as a map
  from paths.\<close>

record ('sc, 'rf) artifact =
  art_model :: "'rf option"
  art_scaler :: "'sc option"
  art_feature_columns :: "string list"
  art_model_name :: string

definition save_model ::
  "('sc, 'rf) rf_model \<Rightarrow> string \<Rightarrow> (string \<rightharpoonup> ('sc, 'rf) artifact)
     \<Rightarrow> (string \<rightharpoonup> ('sc, 'rf) artifact)" where
  "save_model self0 filepath fs =
     fs(filepath \<mapsto> \<lparr>art_model = model self0, art_scaler = scaler self0,
                       art_feature_columns = feature_columns self0,
                       art_model_name = model_name self0\<rparr>)"

definition load_model ::
  "('sc, 'rf) rf_model \<Rightarrow> string \<Rightarrow> (string \<rightharpoonup> ('sc, 'rf) artifact)
     \<Rightarrow> error + ('sc, 'rf) rf_model" where
  "load_model self0 filepath fs =
     (case fs filepath of
        None \<Rightarrow> Inl FileNotFoundError
      | Some model_data \<Rightarrow>
          Inr (self0\<lparr>model := art_model model_data,
                     scaler := art_scaler model_data,
                     feature_columns := art_feature_columns model_data,
                     model_name := art_model_name model_data,
                     is_trained := True\<rparr>))"

subsection \<open>\<open>ProphetForecastingModel\<close>\<close>

text \<open>\<open>self.model\<close> is \<open>None\<close>, a Prophet object that has not been fitted, or a fitted
  one.\<close>

datatype 'pm prophet_obj = Unfitted | Fitted 'pm

record 'pm prophet_model =
  p_model_name :: string
  p_model :: "'pm prophet_obj option"
  p_is_trained :: bool

definition new_prophet_model :: "'pm prophet_model" where
  "new_prophet_model = \<lparr>p_model_name = ''Prophet'', p_model = None, p_is_trained = False\<rparr>"

text \<open>\<open>dropna\<close> on the \<open>(ds, y)\<close> pairs and \<open>drop_duplicates(subset=['ds'])\<close>, which keeps
  the first row of each date.\<close>

fun dropna :: "(int \<times> cell) list \<Rightarrow> (int \<times> real) list" where
  "dropna [] = []"
| "dropna ((d, None) # xs) = dropna xs"
| "dropna ((d, Some v) # xs) = (d, v) # dropna xs"

fun drop_duplicates :: "int list \<Rightarrow> (int \<times> real) list \<Rightarrow> (int \<times> real) list" where
  "drop_duplicates seen [] = []"
| "drop_duplicates seen ((d, v) # xs) =
     (if d \<in> set seen then drop_duplicates seen xs else (d, v) # drop_duplicates (d # seen) xs)"

definition prophet_train ::
  "'pm prophet_lib \<Rightarrow> 'pm prophet_model \<Rightarrow> frame
     \<Rightarrow> (error + ModelMetrics option) \<times> 'pm prophet_model" where
  "prophet_train plib self0 df =
     (if \<not> PROPHET_AVAILABLE plib then (Inr None, self0)
      else
        (let prophet_df = drop_duplicates [] (dropna (map obs (rows (sort_values df))));
             self1 = self0\<lparr>p_model := Some Unfitted\<rparr>
         in case prophet_fit plib prophet_df of
              Inl e \<Rightarrow> (Inl e, self1)
            | Inr m \<Rightarrow> (Inr None, self1\<lparr>p_model := Some (Fitted m), p_is_trained := True\<rparr>)))"

definition prophet_predict_dates ::
  "'pm prophet_lib \<Rightarrow> 'pm prophet_model \<Rightarrow> int list \<Rightarrow> error + ForecastResult list" where
  "prophet_predict_dates plib self0 dates =
     (if \<not> p_is_trained self0 \<or> \<not> PROPHET_AVAILABLE plib then Inl ValueError
      else
        (case p_model self0 of
           None \<Rightarrow> Inl AttributeError
         | Some Unfitted \<Rightarrow> Inl LibraryError
         | Some (Fitted m) \<Rightarrow>
            (case prophet_predict plib m dates of
               Inl e \<Rightarrow> Inl e
             | Inr forecast \<Rightarrow>
                 Inr (map (\<lambda>row. \<lparr>date = ds row,
                                   predicted_rate = yhat row,
                                   confidence_lower = yhat_lower row,
                                   confidence_upper = yhat_upper row,
                                   forecast_model_name = p_model_name self0\<rparr>) forecast))))"

subsection \<open>\<open>ForecastingService\<close>\<close>

text \<open>The service holds the two models; the files of its model directory are part of
  its state here. The frames that \<open>get_hotel_data\<close> reads from the database are inputs.\<close>

record ('sc, 'rf, 'pm) service =
  random_forest :: "('sc, 'rf) rf_model"
  prophet :: "'pm prophet_model"
  files :: "string \<rightharpoonup> ('sc, 'rf) artifact"

definition new_service :: "(string \<rightharpoonup> ('sc, 'rf) artifact) \<Rightarrow> ('sc, 'rf, 'pm) service" where
  "new_service fs = \<lparr>random_forest = new_rf_model, prophet = new_prophet_model, files = fs\<rparr>"

definition model_path :: "int \<Rightarrow> string" where
  "model_path hotel_id = ''models/rf_hotel_'' @ str_int hotel_id @ ''.joblib''"

text \<open>\<open>train_models\<close>: the dictionary of results and the service as the call leaves it.\<close>

definition train_random_forest ::
  "calendar \<Rightarrow> ('sc, 'rf) sklearn \<Rightarrow> ('sc, 'rf, 'pm) service \<Rightarrow> int \<Rightarrow> frame
     \<Rightarrow> (string \<rightharpoonup> ModelMetrics option) \<times> ('sc, 'rf, 'pm) service" where
  "train_random_forest cal lib self0 hotel_id df =
     (case train cal lib (random_forest self0) df of
        (Inr rf_metrics, rf) \<Rightarrow>
          ([''random_forest'' \<mapsto> Some rf_metrics],
           self0\<lparr>random_forest := rf,
                  files := save_model rf (model_path hotel_id) (files self0)\<rparr>)
      | (Inl e, rf) \<Rightarrow>
          ([''random_forest'' \<mapsto> None], self0\<lparr>random_forest := rf\<rparr>))"

definition train_prophet ::
  "'pm prophet_lib \<Rightarrow> (string \<rightharpoonup> ModelMetrics option) \<Rightarrow> ('sc, 'rf, 'pm) service \<Rightarrow> frame
     \<Rightarrow> (string \<rightharpoonup> ModelMetrics option) \<times> ('sc, 'rf, 'pm) service" where
  "train_prophet plib results self0 df =
     (case prophet_train plib (prophet self0) df of
        (Inr prophet_metrics, pm) \<Rightarrow>
          (results(''prophet'' \<mapsto> prophet_metrics), self0\<lparr>prophet := pm\<rparr>)
      | (Inl e, pm) \<Rightarrow>
          (results(''prophet'' \<mapsto> None), self0\<lparr>prophet := pm\<rparr>))"

definition train_models ::
  "calendar \<Rightarrow> ('sc, 'rf) sklearn \<Rightarrow> 'pm prophet_lib \<Rightarrow> ('sc, 'rf, 'pm) service \<Rightarrow> int \<Rightarrow> frame
     \<Rightarrow> (string \<rightharpoonup> ModelMetrics option) \<times> ('sc, 'rf, 'pm) service" where
  "train_models cal lib plib self0 hotel_id df =
     (if df_empty df then (Map.empty, self0)
      else
        (case train_random_forest cal lib self0 hotel_id df of
           (results, self1) \<Rightarrow> train_prophet plib results self1 df))"

text \<open>
  \<open>forecast_rates\<close>. \<open>pd.concat([recent_data, pred_df])\<close> appends one row per future date
  with every other value missing, which turns the integer columns into float64 and the
  boolean ones into object columns. \<open>predictions[-k:]\<close> is the whole array for \<open>k = 0\<close>.
\<close>

definition future_row :: "int \<Rightarrow> row" where
  "future_row d = \<lparr>rdate = d, rrate = None, cells = (\<lambda>_. None)\<rparr>"

definition upcast :: "dtype \<Rightarrow> dtype" where
  "upcast dt =
     (case dt of Int64 \<Rightarrow> Float64 | Int32 \<Rightarrow> Float64 | UInt32 \<Rightarrow> Float64
               | Bool \<Rightarrow> Object | Float64 \<Rightarrow> Float64 | Object \<Rightarrow> Object
               | Datetime64 \<Rightarrow> Datetime64)"

definition concat_future :: "frame \<Rightarrow> int list \<Rightarrow> frame" where
  "concat_future recent_data future_dates =
     \<lparr>rows = rows recent_data @ map future_row future_dates,
      has_hotel_id = has_hotel_id recent_data,
      cols = map (\<lambda>(name, dt). (name, upcast dt)) (cols recent_data)\<rparr>"

definition neg_slice :: "nat \<Rightarrow> 'a list \<Rightarrow> 'a list" where
  "neg_slice k xs = (if k = 0 then xs else drop (length xs - k) xs)"

definition rf_forecast :: "int \<Rightarrow> real \<Rightarrow> ForecastResult" where
  "rf_forecast d pred =
     \<lparr>date = d, predicted_rate = pred,
      confidence_lower = pred * 0.9, confidence_upper = pred * 1.1,
      forecast_model_name = ''Random Forest''\<rparr>"

definition forecast_random_forest ::
  "calendar \<Rightarrow> ('sc, 'rf) sklearn \<Rightarrow> ('sc, 'rf, 'pm) service \<Rightarrow> int \<Rightarrow> int list \<Rightarrow> frame
     \<Rightarrow> ForecastResult list \<times> ('sc, 'rf, 'pm) service" where
  "forecast_random_forest cal lib self0 hotel_id future_dates recent_data =
     (if files self0 (model_path hotel_id) = None then ([], self0)
      else
        (case load_model (random_forest self0) (model_path hotel_id) (files self0) of
           Inl e \<Rightarrow> ([], self0)
         | Inr rf \<Rightarrow>
            (if df_empty recent_data then ([], self0\<lparr>random_forest := rf\<rparr>)
             else
               (case predict cal lib rf (sort_values (concat_future recent_data future_dates)) of
                  (Inl e, rf') \<Rightarrow> ([], self0\<lparr>random_forest := rf'\<rparr>)
                | (Inr predictions, rf') \<Rightarrow>
                    (map (\<lambda>(d, pred). rf_forecast d pred)
                       (zip future_dates (neg_slice (length future_dates) predictions)),
                     self0\<lparr>random_forest := rf'\<rparr>)))))"

definition forecast_prophet ::
  "'pm prophet_lib \<Rightarrow> ('sc, 'rf, 'pm) service \<Rightarrow> int list \<Rightarrow> ForecastResult list" where
  "forecast_prophet plib self0 future_dates =
     (if PROPHET_AVAILABLE plib \<and> p_is_trained (prophet self0) then
        (case prophet_predict_dates plib (prophet self0) future_dates of
           Inl e \<Rightarrow> []
         | Inr prophet_forecasts \<Rightarrow> prophet_forecasts)
      else [])"

definition forecast_rates ::
  "calendar \<Rightarrow> ('sc, 'rf) sklearn \<Rightarrow> 'pm prophet_lib \<Rightarrow> ('sc, 'rf, 'pm) service \<Rightarrow> int \<Rightarrow> int
     \<Rightarrow> int \<Rightarrow> frame \<Rightarrow> ForecastResult list \<times> ('sc, 'rf, 'pm) service" where
  "forecast_rates cal lib plib self0 hotel_id days_ahead now recent_data =
     (let future_dates = map (\<lambda>i. now + 86400 * i) [1..days_ahead]
      in case forecast_random_forest cal lib self0 hotel_id future_dates recent_data of
           (rf_forecasts, self1) \<Rightarrow>
             (rf_forecasts @ forecast_prophet plib self1 future_dates, self1))"


subsection \<open>What the libraries and the rate store guarantee\<close>






subsection \<open>Sample inputs\<close>

text \<open>
  A small instance of scikit-learn, for running the model on concrete data. The scaler
  is the standard scaler: it stores the names, means and standard deviations of the
  columns it was fitted on, rejects an empty frame and a frame of another width, and, when
  \<open>check_names\<close> is set (scikit-learn from 1.2 on), a frame with other column names. The
  regressor stands in for the forest: it predicts the mean of its training targets.
\<close>

record fitted_scaler =
  names_in :: "string list"
  mean_in :: "real list"
  scale_in :: "real list"

definition column :: "nat \<Rightarrow> real list list \<Rightarrow> real list" where
  "column j xs = map (\<lambda>r. r ! j) xs"

definition std_or_one :: "real list \<Rightarrow> real" where
  "std_or_one vs =
     (let s = sqrt (mean (map (\<lambda>v. (v - mean vs)\<^sup>2) vs)) in if s = 0 then 1 else s)"

definition sample_scaler_fit :: "string list \<Rightarrow> real list list \<Rightarrow> error + fitted_scaler" where
  "sample_scaler_fit names xs =
     (if xs = [] then Inl ValueError
      else Inr \<lparr>names_in = names,
               mean_in = map (\<lambda>j. mean (column j xs)) [0..<length names],
               scale_in = map (\<lambda>j. std_or_one (column j xs)) [0..<length names]\<rparr>)"

definition sample_scaler_transform ::
  "bool \<Rightarrow> fitted_scaler \<Rightarrow> string list \<Rightarrow> real list list \<Rightarrow> error + real list list" where
  "sample_scaler_transform check_names sc names xs =
     (if xs = [] then Inl ValueError
      else if length names \<noteq> length (names_in sc) then Inl ValueError
      else if check_names \<and> names \<noteq> names_in sc then Inl ValueError
      else Inr (map (\<lambda>r. map (\<lambda>j. (r ! j - mean_in sc ! j) / scale_in sc ! j) [0..<length names]) xs))"

definition sample_forest_fit :: "real list list \<Rightarrow> cell list \<Rightarrow> error + real" where
  "sample_forest_fit xs ys =
     (if xs = [] then Inl ValueError
      else if length xs \<noteq> length ys then Inl ValueError
      else if None \<in> set ys then Inl ValueError
      else Inr (mean (valid ys)))"

definition sample_forest_predict :: "real \<Rightarrow> real list list \<Rightarrow> error + real list" where
  "sample_forest_predict m xs = (if xs = [] then Inl ValueError else Inr (map (\<lambda>r. m) xs))"

definition sample_sklearn :: "bool \<Rightarrow> (fitted_scaler, real) sklearn" where
  "sample_sklearn check_names =
     \<lparr>scaler_fit = sample_scaler_fit,
      scaler_transform = sample_scaler_transform check_names,
      forest_fit = sample_forest_fit,
      forest_predict = sample_forest_predict\<rparr>"

text \<open>A small instance of Prophet: it needs two observations, and forecasts their mean
  with a band of one unit on either side. And the installation without Prophet.\<close>

definition sample_prophet :: "real prophet_lib" where
  "sample_prophet =
     \<lparr>PROPHET_AVAILABLE = True,
      prophet_fit =
        (\<lambda>pairs. if length pairs < 2 then Inl ValueError else Inr (mean (map snd pairs))),
      prophet_predict =
        (\<lambda>m dates. Inr (map (\<lambda>d. \<lparr>ds = d, yhat = m, yhat_lower = m - 1, yhat_upper = m + 1\<rparr>) dates))\<rparr>"

definition no_prophet :: "real prophet_lib" where
  "no_prophet =
     \<lparr>PROPHET_AVAILABLE = False,
      prophet_fit = (\<lambda>pairs. Inl LibraryError),
      prophet_predict = (\<lambda>m dates. Inl LibraryError)\<rparr>"


text \<open>A calendar that is right for the timestamps of January 2024, counted in seconds from
  2024-01-01 00:00, a Monday.\<close>

definition january_2024 :: calendar where
  "january_2024 =
     \<lparr>year_of = (\<lambda>t. 2024), month_of = (\<lambda>t. 1), day_of = (\<lambda>t. t div 86400 + 1),
      weekday_of = (\<lambda>t. (t div 86400) mod 7), dayofyear_of = (\<lambda>t. t div 86400 + 1),
      week_of = (\<lambda>t. (t div 86400) div 7 + 1), quarter_of = (\<lambda>t. 1), dt_dtype = Int64\<rparr>"

definition observation :: "int \<Rightarrow> real \<Rightarrow> row" where
  "observation d v = \<lparr>rdate = 86400 * d, rrate = Some v, cells = (\<lambda>_. None)\<rparr>"

text \<open>Three daily observations of one hotel, not in date order.\<close>

definition three_days :: frame where
  "three_days =
     \<lparr>rows = [observation 2 120, observation 0 100, observation 1 110],
      has_hotel_id = True, cols = []\<rparr>"

text \<open>The service after \<open>train_models\<close> for hotel 1 on a frame, with the sample
  libraries; and the mean of the rates of the training split, which the sample regressor
  predicts.\<close>

definition sample_service :: "frame \<Rightarrow> (fitted_scaler, real, real) service" where
  "sample_service df =
     snd (train_models january_2024 (sample_sklearn False) sample_prophet
            (new_service Map.empty) 1 df)"

definition first_mean :: "frame \<Rightarrow> real" where
  "first_mean df =
     mean (valid (take ((4 * length (rows df)) div 5) (map rrate (sort_key rdate (rows df)))))"

text \<open>A library in which every call fails, and a frame with one further float64 column.\<close>

definition failing_sklearn :: "(fitted_scaler, real) sklearn" where
  "failing_sklearn =
     \<lparr>scaler_fit = (\<lambda>names xs. Inl LibraryError),
      scaler_transform = (\<lambda>sc names xs. Inl LibraryError),
      forest_fit = (\<lambda>xs ys. Inl LibraryError),
      forest_predict = (\<lambda>m xs. Inl LibraryError)\<rparr>"


section \<open>Properties\<close>

subsection \<open>Column assignments\<close>

lemma length_rows_set_col:
  "length vs = length (rows df) \<Longrightarrow> length (rows (set_col n dt vs df)) = length (rows df)"
  by (simp add: set_col_def)

lemma map_rdate_set_col:
  "length vs = length (rows df) \<Longrightarrow> map rdate (rows (set_col n dt vs df)) = map rdate (rows df)"
  by (simp add: set_col_def list_eq_iff_nth_eq)

lemma map_rrate_set_col:
  "length vs = length (rows df) \<Longrightarrow> map rrate (rows (set_col n dt vs df)) = map rrate (rows df)"
  by (simp add: set_col_def list_eq_iff_nth_eq)

lemma col_set_col:
  "length vs = length (rows df) \<Longrightarrow>
   col n' (set_col n dt vs df) = (if n' = n then vs else col n' df)"
proof -
  have "length vs = length xs \<Longrightarrow>
        map (\<lambda>r. cells r n') (map (\<lambda>(r, v). r\<lparr>cells := (cells r)(n := v)\<rparr>) (zip xs vs))
        = (if n' = n then vs else map (\<lambda>r. cells r n') xs)" for xs :: "row list"
    by (induction vs xs rule: list_induct2) auto
  then show "length vs = length (rows df) \<Longrightarrow> ?thesis"
    by (simp add: set_col_def col_def)
qed

lemma cols_set_col: "cols (set_col n dt vs df) = AList.update n dt (cols df)"
  by (simp add: set_col_def)

lemma has_hotel_id_set_col: "has_hotel_id (set_col n dt vs df) = has_hotel_id df"
  by (simp add: set_col_def)

lemma assign_rdate: "step_ok s \<Longrightarrow> map rdate (rows (assign s df)) = map rdate (rows df)"
  by (cases s) (simp add: assign_def step_ok_def map_rdate_set_col)

lemma assign_rrate: "step_ok s \<Longrightarrow> map rrate (rows (assign s df)) = map rrate (rows df)"
  by (cases s) (simp add: assign_def step_ok_def map_rrate_set_col)

lemma assign_length: "step_ok s \<Longrightarrow> length (rows (assign s df)) = length (rows df)"
  by (cases s) (simp add: assign_def step_ok_def length_rows_set_col)

lemma assign_col:
  "step_ok s \<Longrightarrow> col n (assign s df) = (if n = fst s then snd (snd s) df else col n df)"
  by (cases s) (simp add: assign_def step_ok_def col_set_col)

lemma assign_cols: "map_of (cols (assign s df)) = (map_of (cols df))(fst s \<mapsto> fst (snd s))"
  by (cases s) (simp add: assign_def cols_set_col update_conv')

lemma assign_hotel: "has_hotel_id (assign s df) = has_hotel_id df"
  by (cases s) (simp add: assign_def has_hotel_id_set_col)

lemma assign_all_rdate:
  "list_all step_ok steps \<Longrightarrow> map rdate (rows (assign_all steps df)) = map rdate (rows df)"
  unfolding assign_all_def by (induction steps arbitrary: df) (simp_all add: assign_rdate)

lemma assign_all_rrate:
  "list_all step_ok steps \<Longrightarrow> map rrate (rows (assign_all steps df)) = map rrate (rows df)"
  unfolding assign_all_def by (induction steps arbitrary: df) (simp_all add: assign_rrate)

lemma assign_all_length:
  "list_all step_ok steps \<Longrightarrow> length (rows (assign_all steps df)) = length (rows df)"
  unfolding assign_all_def by (induction steps arbitrary: df) (simp_all add: assign_length)

lemma assign_all_hotel: "has_hotel_id (assign_all steps df) = has_hotel_id df"
  unfolding assign_all_def by (induction steps arbitrary: df) (simp_all add: assign_hotel)

lemma assign_all_col_other:
  "list_all step_ok steps \<Longrightarrow> n \<notin> fst ` set steps \<Longrightarrow> col n (assign_all steps df) = col n df"
  unfolding assign_all_def by (induction steps arbitrary: df) (simp_all add: assign_col)

lemma assign_all_cols_other:
  "n \<notin> fst ` set steps \<Longrightarrow> map_of (cols (assign_all steps df)) n = map_of (cols df) n"
  unfolding assign_all_def by (induction steps arbitrary: df) (simp_all add: assign_cols)

lemma assign_all_Cons: "assign_all (s # steps) df = assign_all steps (assign s df)"
  by (simp add: assign_all_def)

lemma assign_all_append: "assign_all (xs @ ys) df = assign_all ys (assign_all xs df)"
  by (simp add: assign_all_def)

lemma date_steps_ok: "list_all step_ok (date_steps cal)"
  by (simp add: date_steps_def step_ok_def dt_col_def col_def)

lemma lag_step_ok: "step_ok (lag_step k)"
  by (auto simp: lag_step_def step_ok_def shift_def)

lemma rolling_steps_ok: "list_all step_ok (rolling_steps w)"
  by (simp add: rolling_steps_def step_ok_def rolling_def)

lemma competitive_steps_ok: "list_all step_ok competitive_steps"
  by (simp add: competitive_steps_def step_ok_def col_def)

subsection \<open>The feature pipeline\<close>

lemma assign_obs: "step_ok s \<Longrightarrow> map obs (rows (assign s df)) = map obs (rows df)"
  using assign_rdate [of s df] assign_rrate [of s df]
  by (simp add: obs_def list_eq_iff_nth_eq)

lemma insort_key_map:
  "map h (insort_key (\<lambda>a. f (h a)) x xs) = insort_key f (h x) (map h xs)"
  by (induction xs) simp_all

lemma sort_key_map: "map h (sort_key (\<lambda>a. f (h a)) xs) = sort_key f (map h xs)"
  by (induction xs) (simp_all add: insort_key_map)

lemma obs_sort_values: "map obs (rows (sort_values df)) = sort_key fst (map obs (rows df))"
  using sort_key_map [of obs fst "rows df"] by (simp add: sort_values_def obs_def)

lemma sort_values_sorted: "sorted (map rdate (rows df)) \<Longrightarrow> sort_values df = df"
  by (simp add: sort_values_def sort_key_id_if_sorted)

lemma sorted_sort_values: "sorted (map rdate (rows (sort_values df)))"
  by (simp add: sort_values_def)

lemma steps_ok_lags: "list_all step_ok (map lag_step lags)"
  by (simp add: list_all_iff lag_step_ok)

lemma steps_ok_rolling: "list_all step_ok (concat (map rolling_steps ws))"
  using rolling_steps_ok by (induction ws) (simp_all)

lemma sorted_add_lag: "sorted (map rdate (rows (add_lag_features lags df)))"
  by (simp add: add_lag_features_def assign_all_rdate steps_ok_lags sorted_sort_values)

lemma add_rolling_sorted:
  "sorted (map rdate (rows df)) \<Longrightarrow>
   add_rolling_features ws df = assign_all (concat (map rolling_steps ws)) df"
  by (simp add: add_rolling_features_def sort_values_sorted)

lemma engineered_eq:
  "engineered cal df =
     add_competitive_features
       (assign_all (concat (map rolling_steps [7, 14, 30]))
          (assign_all (map lag_step [1, 7, 30])
             (sort_values (assign_all (date_steps cal) df))))"
  unfolding engineered_def
  by (simp only: add_rolling_sorted [OF sorted_add_lag])
     (simp only: add_lag_features_def extract_date_features_def)

lemma assign_all_obs:
  "list_all step_ok steps \<Longrightarrow> map obs (rows (assign_all steps d)) = map obs (rows d)"
  unfolding assign_all_def by (induction steps arbitrary: d) (simp_all add: assign_obs)

lemma competitive_obs: "map obs (rows (add_competitive_features d)) = map obs (rows d)"
  by (simp add: add_competitive_features_def assign_all_obs competitive_steps_ok)

lemma engineered_obs:
  "map obs (rows (engineered cal df)) = sort_key fst (map obs (rows df))"
  by (simp only: engineered_eq competitive_obs assign_all_obs [OF steps_ok_rolling]
        assign_all_obs [OF steps_ok_lags] obs_sort_values assign_all_obs [OF date_steps_ok])

lemma engineered_rrate:
  "map rrate (rows (engineered cal df)) = map snd (sort_key fst (map obs (rows df)))"
proof -
  have "map rrate xs = map snd (map obs xs)" for xs by (simp add: obs_def)
  then show ?thesis by (simp only: engineered_obs)
qed

lemma engineered_rdate:
  "map rdate (rows (engineered cal df)) = sort (map rdate (rows df))"
proof -
  have *: "map rdate xs = map fst (map obs xs)" for xs by (simp add: obs_def)
  have "map fst (sort_key fst ps) = sort (map fst ps)" for ps :: "(int \<times> cell) list"
    using sort_key_map [of fst "\<lambda>x. x" ps] by simp
  then show ?thesis by (simp only: * engineered_obs)
qed

lemma engineered_length: "length (rows (engineered cal df)) = length (rows df)"
  using arg_cong [OF engineered_rdate [of cal df], of length] by simp

lemma str_nat_1: "str_nat 1 = ''1''" by simp
lemma str_nat_7: "str_nat 7 = ''7''" by simp
lemma str_nat_30: "str_nat 30 = ''30''" by simp
lemma str_nat_14: "str_nat 14 = ''14''" by simp

lemma competitive_col_other:
  "n \<notin> fst ` set competitive_steps \<Longrightarrow> col n (add_competitive_features d) = col n d"
  by (simp add: add_competitive_features_def assign_all_col_other competitive_steps_ok)

lemma competitive_rrate: "map rrate (rows (add_competitive_features d)) = map rrate (rows d)"
  by (simp add: add_competitive_features_def assign_all_rrate competitive_steps_ok)

lemma engineered_lag_1:
  "col ''rate_lag_1'' (engineered cal df) = shift 1 (map rrate (rows (engineered cal df)))"
proof -
  define S where "S = sort_values (assign_all (date_steps cal) df)"
  define L where "L = assign_all (map lag_step [1, 7, 30]) S"
  define R where "R = assign_all (concat (map rolling_steps [7, 14, 30])) L"
  have E: "engineered cal df = add_competitive_features R"
    by (simp only: engineered_eq R_def L_def S_def)
  have n1: "''rate_lag_1'' \<notin> fst ` set competitive_steps"
    by (simp add: competitive_steps_def)
  have n2: "''rate_lag_1'' \<notin> fst ` set (concat (map rolling_steps [7, 14, 30]))"
    by (simp add: rolling_steps_def)
  have n3: "''rate_lag_1'' \<notin> fst ` set (map lag_step [7, 30])"
    by (simp add: lag_step_def)
  have "L = assign_all (map lag_step [7, 30]) (assign (lag_step 1) S)"
    by (simp add: L_def assign_all_Cons)
  then have "col ''rate_lag_1'' L = col ''rate_lag_1'' (assign (lag_step 1) S)"
    by (simp only: assign_all_col_other [OF steps_ok_lags n3])
  also have "\<dots> = shift 1 (map rrate (rows S))"
    by (simp add: assign_col lag_step_ok) (simp add: lag_step_def)
  finally have c: "col ''rate_lag_1'' L = shift 1 (map rrate (rows S))" .
  have "col ''rate_lag_1'' (engineered cal df) = col ''rate_lag_1'' L"
    by (simp only: E competitive_col_other [OF n1] R_def
          assign_all_col_other [OF steps_ok_rolling n2])
  moreover have "map rrate (rows (engineered cal df)) = map rrate (rows S)"
    by (simp only: E competitive_rrate R_def L_def assign_all_rrate [OF steps_ok_rolling]
          assign_all_rrate [OF steps_ok_lags])
  ultimately show ?thesis using c by simp
qed

lemma competitive_cols_other:
  "n \<notin> fst ` set competitive_steps \<Longrightarrow>
   map_of (cols (add_competitive_features d)) n = map_of (cols d) n"
  by (simp add: add_competitive_features_def assign_all_cols_other)

lemma engineered_lag_1_dtype:
  "map_of (cols (engineered cal df)) ''rate_lag_1'' = Some Float64"
proof -
  define S where "S = sort_values (assign_all (date_steps cal) df)"
  have n1: "''rate_lag_1'' \<notin> fst ` set competitive_steps"
    by (simp add: competitive_steps_def)
  have n2: "''rate_lag_1'' \<notin> fst ` set (concat (map rolling_steps [7, 14, 30]))"
    by (simp add: rolling_steps_def)
  have n3: "''rate_lag_1'' \<notin> fst ` set (map lag_step [7, 30])"
    by (simp add: lag_step_def)
  have "map_of (cols (engineered cal df)) ''rate_lag_1''
        = map_of (cols (assign_all (map lag_step [1, 7, 30]) S)) ''rate_lag_1''"
    by (simp only: engineered_eq S_def competitive_cols_other [OF n1]
          assign_all_cols_other [OF n2])
  also have "\<dots> = map_of (cols (assign (lag_step 1) S)) ''rate_lag_1''"
    using assign_all_cols_other [OF n3, of "assign (lag_step 1) S"]
    by (simp add: assign_all_Cons)
  also have "\<dots> = Some Float64"
    by (simp add: assign_cols lag_step_def)
  finally show ?thesis .
qed

lemma lag_1_is_feature: "''rate_lag_1'' \<in> set (X_cols (prepare_data cal df))"
proof -
  have "(''rate_lag_1'', Float64) \<in> set (cols (engineered cal df))"
    by (rule map_of_SomeD) (rule engineered_lag_1_dtype)
  then have "(''rate_lag_1'', Float64) \<in>
      set (filter (\<lambda>(c, dt). c \<notin> set exclude_cols \<and> (dt = Int64 \<or> dt = Float64))
             (cols (engineered cal df)))"
    by (simp add: exclude_cols_def)
  then have "fst (''rate_lag_1'', Float64) \<in> set (feature_cols (engineered cal df))"
    unfolding feature_cols_def set_map by (rule imageI)
  then show ?thesis by (simp add: prepare_data_def Let_def)
qed

lemma length_ffill_from: "length (ffill_from p xs) = length xs"
  by (induction p xs rule: ffill_from.induct) simp_all

lemma ffill_from_Some:
  "i < length xs \<Longrightarrow> xs ! i = Some v \<Longrightarrow> ffill_from p xs ! i = Some v"
proof (induction p xs arbitrary: i rule: ffill_from.induct)
  case (1 prev)
  then show ?case by simp
next
  case (2 prev xs)
  then show ?case by (cases i) simp_all
next
  case (3 prev v' xs)
  then show ?case by (cases i) simp_all
qed

lemma shift_1_nth:
  "Suc 0 \<le> i \<Longrightarrow> i < length xs \<Longrightarrow> shift (Suc 0) xs ! i = xs ! (i - Suc 0)"
  by (cases i) (simp_all add: shift_def)

lemma prepare_X_nth:
  "i < length (rows df) \<Longrightarrow> k < length (X_cols (prepare_data cal df)) \<Longrightarrow>
   X (prepare_data cal df) ! i ! k
     = filled (engineered cal df) (X_cols (prepare_data cal df) ! k) ! i"
  by (simp add: prepare_data_def Let_def engineered_length)

lemma prepare_y: "y (prepare_data cal df) = map rrate (sort_key rdate (rows df))"
proof -
  have "map snd (map obs (sort_key (\<lambda>a. fst (obs a)) (rows df)))
        = map snd (sort_key fst (map obs (rows df)))"
    by (simp only: sort_key_map)
  then have "map rrate (sort_key rdate (rows df)) = map snd (sort_key fst (map obs (rows df)))"
    by (simp add: obs_def comp_def)
  then show ?thesis
    by (simp add: prepare_data_def Let_def engineered_rrate)
qed

text \<open>
  C8. When every rate of the series is defined (as in a strictly increasing series of
  rates), the value of the feature \<open>rate_lag_1\<close> in row \<open>i \<ge> 1\<close> of the prepared frame is
  exactly the rate of row \<open>i - 1\<close> in date order.
\<close>

theorem lag_1_is_previous_rate:
  assumes "\<forall>r \<in> set (rows df). rrate r \<noteq> None"
    and "1 \<le> i" and "i < length (rows df)"
    and "k < length (X_cols (prepare_data cal df))"
    and "X_cols (prepare_data cal df) ! k = ''rate_lag_1''"
  shows "Some (X (prepare_data cal df) ! i ! k) = map rrate (sort_key rdate (rows df)) ! (i - 1)"
proof -
  let ?rates = "map rrate (sort_key rdate (rows df))"
  have len: "length ?rates = length (rows df)" by simp
  have "?rates ! (i - 1) \<in> set ?rates"
    using assms(3) len by (metis less_imp_diff_less nth_mem)
  then have "?rates ! (i - 1) \<noteq> None"
    using assms(1) by auto
  then obtain v where v: "?rates ! (i - 1) = Some v" by auto
  have rr: "map rrate (rows (engineered cal df)) = ?rates"
    using prepare_y [of cal df] by (simp add: prepare_data_def Let_def)
  have "col ''rate_lag_1'' (engineered cal df) ! i = Some v"
    using assms(2,3) v len by (simp add: engineered_lag_1 rr shift_1_nth)
  moreover have "i < length (col ''rate_lag_1'' (engineered cal df))"
    using assms(3) by (simp add: col_def engineered_length)
  ultimately have "filled (engineered cal df) ''rate_lag_1'' ! i = v"
    by (simp add: filled_def ffill_def length_ffill_from ffill_from_Some fillna_def)
  then show ?thesis
    using assms(3,4,5) v by (simp add: prepare_X_nth)
qed

lemma assign_all_cols: "cols (assign_all steps df) = step_cols steps (cols df)"
  unfolding assign_all_def step_cols_def
  by (induction steps arbitrary: df) (simp_all add: assign_def cols_set_col split: prod.splits)

lemma engineered_cols:
  "cols (engineered cal df) =
     (if has_hotel_id df then step_cols competitive_steps else (\<lambda>cs. cs))
       (step_cols (concat (map rolling_steps [7, 14, 30]))
         (step_cols (map lag_step [1, 7, 30])
           (step_cols (date_steps cal) (cols df))))"
  by (simp add: engineered_eq add_competitive_features_def assign_all_cols assign_all_hotel
        sort_values_def)

lemma X_cols_plain:
  "cols df = [] \<Longrightarrow> has_hotel_id df \<Longrightarrow> dt_dtype cal = Int64 \<Longrightarrow>
   X_cols (prepare_data cal df) = default_features"
  by (simp add: prepare_data_def Let_def feature_cols_def engineered_cols step_cols_def
      date_steps_def lag_step_def rolling_steps_def competitive_steps_def exclude_cols_def
      default_features_def)

theorem lag_1_is_previous_rate_witness:
  "list_all (\<lambda>r. rrate r \<noteq> None) (rows three_days)
   \<and> X_cols (prepare_data january_2024 three_days) ! 11 = ''rate_lag_1''
   \<and> X (prepare_data january_2024 three_days) ! 1 ! 11 = 100"
proof -
  have c: "X_cols (prepare_data january_2024 three_days) = default_features"
    by (rule X_cols_plain) (simp_all add: three_days_def january_2024_def)
  have h1: "\<forall>r \<in> set (rows three_days). rrate r \<noteq> None"
    by (simp add: three_days_def observation_def)
  have h2: "1 \<le> (1::nat)" and h3: "1 < length (rows three_days)"
    by (simp_all add: three_days_def)
  have h4: "11 < length (X_cols (prepare_data january_2024 three_days))"
    by (simp only: c) (simp add: default_features_def)
  have h5: "X_cols (prepare_data january_2024 three_days) ! 11 = ''rate_lag_1''"
    by (simp only: c) (simp add: default_features_def)
  have "map rrate (sort_key rdate (rows three_days)) ! (1 - 1) = Some 100"
    by (simp add: three_days_def observation_def)
  then have "X (prepare_data january_2024 three_days) ! 1 ! 11 = 100"
    using lag_1_is_previous_rate [OF h1 h2 h3 h4 h5] by simp
  then show ?thesis
    using h1 h5 by (simp add: list_all_iff)
qed

subsection \<open>Training and prediction\<close>

lemma length_X: "length (X (prepare_data cal df)) = length (rows df)"
  by (simp add: prepare_data_def Let_def engineered_length)

lemma length_y: "length (y (prepare_data cal df)) = length (rows df)"
  by (simp add: prepare_y)

lemma width_X: "r \<in> set (X (prepare_data cal df)) \<Longrightarrow> length r = length (X_cols (prepare_data cal df))"
  by (auto simp: prepare_data_def Let_def)

lemma index_of_nth: "distinct xs \<Longrightarrow> i < length xs \<Longrightarrow> index_of (xs ! i) xs = i"
proof (induction xs arbitrary: i)
  case Nil
  then show ?case by simp
next
  case (Cons a xs)
  then show ?case by (cases i) auto
qed

lemma select_row:
  "distinct names \<Longrightarrow> length r = length names \<Longrightarrow> map (\<lambda>c. r ! index_of c names) names = r"
  by (rule nth_equalityI) (simp_all add: index_of_nth)

lemma select_cols_all:
  assumes "distinct (X_cols p)" and "\<forall>r \<in> set (X p). length r = length (X_cols p)"
  shows "select_cols (X_cols p) p = Inr (X p)"
proof -
  have "map (\<lambda>r. map (\<lambda>c. r ! index_of c (X_cols p)) (X_cols p)) (X p) = map (\<lambda>r. r) (X p)"
    by (rule map_cong) (simp_all add: select_row assms)
  then show ?thesis by (simp add: select_cols_def list_all_iff)
qed

lemma distinct_step_cols:
  "distinct (map fst cs) \<Longrightarrow> distinct (map fst (step_cols steps cs))"
  unfolding step_cols_def by (induction steps arbitrary: cs) (simp_all add: distinct_update)

lemma distinct_feature_cols: "distinct (map fst (cols df)) \<Longrightarrow> distinct (feature_cols df)"
  by (simp add: feature_cols_def distinct_map_filter)

lemma distinct_X_cols:
  "distinct (map fst (cols df)) \<Longrightarrow> distinct (X_cols (prepare_data cal df))"
proof -
  assume "distinct (map fst (cols df))"
  then have "distinct (map fst (cols (engineered cal df)))"
    by (simp add: engineered_cols distinct_step_cols)
  then show ?thesis by (simp add: prepare_data_def Let_def distinct_feature_cols)
qed

lemma select_prepared:
  "distinct (map fst (cols df)) \<Longrightarrow>
   select_cols (X_cols (prepare_data cal df)) (prepare_data cal df) = Inr (X (prepare_data cal df))"
  by (rule select_cols_all) (simp_all add: distinct_X_cols width_X)

lemma predict_trained:
  assumes "distinct (map fst (cols df))" and "is_trained self0"
    and "scaler self0 = Some sc" and "model self0 = Some m"
  shows "predict cal lib self0 df =
     ((case scaler_transform lib sc (X_cols (prepare_data cal df)) (X (prepare_data cal df)) of
         Inl e \<Rightarrow> Inl e
       | Inr X_scaled \<Rightarrow> forest_predict lib m X_scaled),
      self0\<lparr>feature_columns := X_cols (prepare_data cal df)\<rparr>)"
  using assms by (simp add: predict_def Let_def select_prepared split: sum.splits)

lemma predict_ignores_recorded:
  "fst (predict cal lib (self0\<lparr>feature_columns := fc\<rparr>) df) = fst (predict cal lib self0 df)"
  by (simp add: predict_def Let_def split: sum.splits option.splits)

lemma train_models_empty:
  "df_empty df \<Longrightarrow> train_models cal lib plib self0 hotel_id df = (Map.empty, self0)"
  by (simp add: train_models_def)

lemma train_models_results:
  assumes "\<not> df_empty df"
  shows "fst (train_models cal lib plib self0 hotel_id df) =
           [''random_forest'' \<mapsto> (case fst (train cal lib (random_forest self0) df) of
                                     Inl e \<Rightarrow> None | Inr metrics \<Rightarrow> Some metrics),
            ''prophet'' \<mapsto> (case fst (prophet_train plib (prophet self0) df) of
                              Inl e \<Rightarrow> None | Inr metrics \<Rightarrow> metrics)]"
    and "random_forest (snd (train_models cal lib plib self0 hotel_id df))
           = snd (train cal lib (random_forest self0) df)"
    and "prophet (snd (train_models cal lib plib self0 hotel_id df))
           = snd (prophet_train plib (prophet self0) df)"
    and "files (snd (train_models cal lib plib self0 hotel_id df)) =
           (case fst (train cal lib (random_forest self0) df) of
              Inl e \<Rightarrow> files self0
            | Inr metrics \<Rightarrow>
                save_model (snd (train cal lib (random_forest self0) df)) (model_path hotel_id)
                  (files self0))"
proof -
  obtain r1 rf1 where t: "train cal lib (random_forest self0) df = (r1, rf1)"
    by (cases "train cal lib (random_forest self0) df")
  obtain r2 pm2 where q: "prophet_train plib (prophet self0) df = (r2, pm2)"
    by (cases "prophet_train plib (prophet self0) df")
  show "fst (train_models cal lib plib self0 hotel_id df) =
           [''random_forest'' \<mapsto> (case fst (train cal lib (random_forest self0) df) of
                                     Inl e \<Rightarrow> None | Inr metrics \<Rightarrow> Some metrics),
            ''prophet'' \<mapsto> (case fst (prophet_train plib (prophet self0) df) of
                              Inl e \<Rightarrow> None | Inr metrics \<Rightarrow> metrics)]"
    using assms
    by (cases r1; cases r2)
       (simp_all add: train_models_def train_random_forest_def train_prophet_def t q)
  show "random_forest (snd (train_models cal lib plib self0 hotel_id df))
           = snd (train cal lib (random_forest self0) df)"
    using assms
    by (cases r1; cases r2)
       (simp_all add: train_models_def train_random_forest_def train_prophet_def t q)
  show "prophet (snd (train_models cal lib plib self0 hotel_id df))
           = snd (prophet_train plib (prophet self0) df)"
    using assms
    by (cases r1; cases r2)
       (simp_all add: train_models_def train_random_forest_def train_prophet_def t q)
  show "files (snd (train_models cal lib plib self0 hotel_id df)) =
           (case fst (train cal lib (random_forest self0) df) of
              Inl e \<Rightarrow> files self0
            | Inr metrics \<Rightarrow>
                save_model (snd (train cal lib (random_forest self0) df)) (model_path hotel_id)
                  (files self0))"
    using assms
    by (cases r1; cases r2)
       (simp_all add: train_models_def train_random_forest_def train_prophet_def t q)
qed






lemma sample_train:
  assumes "2 \<le> length (rows df)" and "\<forall>r \<in> set (rows df). rrate r \<noteq> None"
  shows "\<exists>metrics sc.
           sample_scaler_fit (X_cols (prepare_data cal df))
             (take ((4 * length (rows df)) div 5) (X (prepare_data cal df))) = Inr sc
           \<and> train cal (sample_sklearn b) self0 df =
               (Inr metrics,
                self0\<lparr>feature_columns := X_cols (prepare_data cal df),
                       scaler := Some sc,
                       model := Some (mean (valid (take ((4 * length (rows df)) div 5)
                                                     (y (prepare_data cal df))))),
                       is_trained := True\<rparr>)"
proof -
  let ?p = "prepare_data cal df"
  let ?k = "(4 * length (rows df)) div 5"
  have k: "1 \<le> ?k" "?k < length (rows df)" using assms(1) by linarith+
  have xn: "X ?p \<noteq> []" using k length_X [of cal df] by auto
  have tr: "take ?k (X ?p) \<noteq> []" and te: "drop ?k (X ?p) \<noteq> []"
    using k xn by (simp_all add: length_X)
  have "None \<notin> set (y ?p)" using assms(2) by (auto simp: prepare_y)
  then have ny: "None \<notin> set (take ?k (y ?p))" "None \<notin> set (drop ?k (y ?p))"
    by (meson in_set_takeD in_set_dropD)+
  have yd: "drop ?k (y ?p) \<noteq> []" using k length_y [of cal df] by simp
  show ?thesis
    using tr te ny yd
    by (simp add: train_def Let_def sample_sklearn_def sample_scaler_fit_def
          sample_scaler_transform_def sample_forest_fit_def sample_forest_predict_def
          calculate_metrics_def length_X length_y)
qed

lemma sample_predict:
  assumes "distinct (map fst (cols df))" and "is_trained self0"
    and "scaler self0 = Some sc" and "model self0 = Some m" and "rows df \<noteq> []"
    and "length (names_in sc) = length (X_cols (prepare_data cal df))"
    and "b \<longrightarrow> names_in sc = X_cols (prepare_data cal df)"
  shows "fst (predict cal (sample_sklearn b) self0 df) = Inr (replicate (length (rows df)) m)"
proof -
  have "X (prepare_data cal df) \<noteq> []"
    using assms(5) length_X [of cal df] by auto
  then show ?thesis
    using assms
    by (auto simp: predict_trained sample_sklearn_def sample_scaler_transform_def
          sample_forest_predict_def length_X map_replicate_const)
qed

subsection \<open>Runs with the sample libraries\<close>

lemma sample_service_rf:
  assumes "cols df = []" and "has_hotel_id df"
    and "2 \<le> length (rows df)" and "\<forall>r \<in> set (rows df). rrate r \<noteq> None"
  shows "\<exists>sc. names_in sc = default_features
            \<and> random_forest (sample_service df) =
                 new_rf_model\<lparr>feature_columns := default_features, scaler := Some sc,
                              model := Some (first_mean df), is_trained := True\<rparr>
            \<and> files (sample_service df) (model_path 1) =
                 Some \<lparr>art_model = Some (first_mean df), art_scaler = Some sc,
                       art_feature_columns = default_features,
                       art_model_name = ''Random Forest''\<rparr>"
proof -
  have c: "X_cols (prepare_data january_2024 df) = default_features"
    by (rule X_cols_plain) (simp_all add: assms january_2024_def)
  have ne: "\<not> df_empty df" using assms(3) by (auto simp: df_empty_def)
  obtain metrics sc where
    f: "sample_scaler_fit default_features
          (take ((4 * length (rows df)) div 5) (X (prepare_data january_2024 df))) = Inr sc"
    and t: "train january_2024 (sample_sklearn False) new_rf_model df =
              (Inr metrics,
               new_rf_model\<lparr>feature_columns := default_features, scaler := Some sc,
                            model := Some (first_mean df), is_trained := True\<rparr>)"
    using sample_train [OF assms(3,4), of january_2024 False new_rf_model]
    unfolding c first_mean_def prepare_y by blast
  have n: "names_in sc = default_features"
    using f by (auto simp: sample_scaler_fit_def split: if_splits)
  have "random_forest (sample_service df) =
          new_rf_model\<lparr>feature_columns := default_features, scaler := Some sc,
                       model := Some (first_mean df), is_trained := True\<rparr>"
    by (simp add: sample_service_def train_models_results(2) [OF ne] new_service_def t)
  moreover have "files (sample_service df) =
                 save_model (new_rf_model\<lparr>feature_columns := default_features, scaler := Some sc,
                       model := Some (first_mean df), is_trained := True\<rparr>) (model_path 1) Map.empty"
    by (simp add: sample_service_def train_models_results(4) [OF ne] new_service_def t)
  then have "files (sample_service df) (model_path 1) =
                 Some \<lparr>art_model = Some (first_mean df), art_scaler = Some sc,
                       art_feature_columns = default_features,
                       art_model_name = ''Random Forest''\<rparr>"
    by (simp add: save_model_def new_rf_model_def)
  ultimately show ?thesis using n by blast
qed

lemma zip_neg_slice:
  "zip xs (neg_slice (length xs) (replicate (a + length xs) m)) = map (\<lambda>d. (d, m)) xs"
  by (cases xs) (simp_all add: neg_slice_def zip_replicate2 del: replicate_Suc)

lemma sample_forecast:
  assumes "cols df = []" and "has_hotel_id df"
    and "2 \<le> length (rows df)" and "\<forall>r \<in> set (rows df). rrate r \<noteq> None"
    and "cols recent = []" and "has_hotel_id recent" and "rows recent \<noteq> []"
  shows "fst (forecast_random_forest january_2024 (sample_sklearn b) (sample_service df) 1
                future_dates recent)
         = map (\<lambda>d. rf_forecast d (first_mean df)) future_dates"
proof -
  obtain sc where n: "names_in sc = default_features"
    and f: "files (sample_service df) (model_path 1) =
                 Some \<lparr>art_model = Some (first_mean df), art_scaler = Some sc,
                       art_feature_columns = default_features,
                       art_model_name = ''Random Forest''\<rparr>"
    using sample_service_rf [OF assms(1-4)] by blast
  let ?C = "sort_values (concat_future recent future_dates)"
  let ?rf = "random_forest (sample_service df)\<lparr>model := Some (first_mean df),
      scaler := Some sc, feature_columns := default_features,
      model_name := ''Random Forest'', is_trained := True\<rparr>"
  have l: "load_model (random_forest (sample_service df)) (model_path 1)
             (files (sample_service df)) = Inr ?rf"
    by (simp add: load_model_def f)
  have c: "X_cols (prepare_data january_2024 ?C) = default_features"
    by (rule X_cols_plain)
       (simp_all add: sort_values_def concat_future_def assms january_2024_def)
  have len: "length (rows ?C) = length (rows recent) + length future_dates"
    by (simp add: sort_values_def concat_future_def)
  have h1: "distinct (map fst (cols ?C))"
    by (simp add: sort_values_def concat_future_def assms)
  have h5: "rows ?C \<noteq> []"
    using len assms(7) by (metis add_is_0 length_0_conv)
  have h6: "length (names_in sc) = length (X_cols (prepare_data january_2024 ?C))"
    by (simp add: c n)
  have h7: "b \<longrightarrow> names_in sc = X_cols (prepare_data january_2024 ?C)"
    by (simp add: c n)
  have "fst (predict january_2024 (sample_sklearn b) ?rf ?C)
          = Inr (replicate (length (rows ?C)) (first_mean df))"
    by (rule sample_predict [OF h1 _ _ _ h5 h6 h7]) simp_all
  then obtain rf' where pr: "predict january_2024 (sample_sklearn b) ?rf ?C
          = (Inr (replicate (length (rows recent) + length future_dates) (first_mean df)), rf')"
    unfolding len by (cases "predict january_2024 (sample_sklearn b) ?rf ?C") simp
  show ?thesis
    using assms(7)
    by (simp add: forecast_random_forest_def f l pr df_empty_def zip_neg_slice)
qed

lemma forecast_rates_parts:
  "fst (forecast_rates cal lib plib self0 hotel_id days_ahead now recent_data) =
     fst (forecast_random_forest cal lib self0 hotel_id
            (map (\<lambda>i. now + 86400 * i) [1..days_ahead]) recent_data)
     @ forecast_prophet plib
         (snd (forecast_random_forest cal lib self0 hotel_id
                 (map (\<lambda>i. now + 86400 * i) [1..days_ahead]) recent_data))
         (map (\<lambda>i. now + 86400 * i) [1..days_ahead])"
  by (simp add: forecast_rates_def Let_def split: prod.splits)

lemma rf_part_is_rf_forecast:
  "p \<in> set (fst (forecast_random_forest cal lib self0 hotel_id future_dates recent_data))
   \<Longrightarrow> \<exists>d pred. p = rf_forecast d pred"
  by (auto simp: forecast_random_forest_def split: if_splits sum.splits prod.splits)


lemma first_mean_three_days: "first_mean three_days = 105"
  by (simp add: first_mean_def three_days_def observation_def mean_def)

lemma upto_1_1: "[1..1] = [1::int]"
  by (simp add: upto.simps)

lemma three_days_plain:
  "cols three_days = []" "has_hotel_id three_days" "2 \<le> length (rows three_days)"
  "\<forall>r \<in> set (rows three_days). rrate r \<noteq> None" "rows three_days \<noteq> []"
  by (simp_all add: three_days_def observation_def)

text \<open>
  C10. Every forecast of the Random Forest variant is one of the forecasts that
  \<open>forecast_rates\<close> returns, and its band is exactly \<open>0.9\<close> and \<open>1.1\<close> times the predicted
  rate.
\<close>

theorem rf_band:
  assumes "p \<in> set (fst (forecast_random_forest cal lib self0 hotel_id
                          (map (\<lambda>i. now + 86400 * i) [1..days_ahead]) recent_data))"
  shows "p \<in> set (fst (forecast_rates cal lib plib self0 hotel_id days_ahead now recent_data))
         \<and> confidence_lower p = 0.9 * predicted_rate p
         \<and> confidence_upper p = 1.1 * predicted_rate p"
proof -
  obtain d pred where "p = rf_forecast d pred"
    using rf_part_is_rf_forecast [OF assms] by blast
  then show ?thesis
    using assms by (simp add: forecast_rates_parts rf_forecast_def)
qed

theorem rf_band_witness:
  "fst (forecast_random_forest january_2024 (sample_sklearn False) (sample_service three_days) 1
          (map (\<lambda>i. 172800 + 86400 * i) [1..1]) three_days) = [rf_forecast 259200 105]
   \<and> confidence_lower (rf_forecast 259200 105) = 0.9 * 105
   \<and> confidence_upper (rf_forecast 259200 105) = 1.1 * 105"
proof -
  have f: "fst (forecast_random_forest january_2024 (sample_sklearn False)
             (sample_service three_days) 1 (map (\<lambda>i. 172800 + 86400 * i) [1..1]) three_days)
           = [rf_forecast 259200 105]"
    by (simp add: sample_forecast three_days_plain first_mean_three_days upto_1_1)
  have "rf_forecast 259200 105 \<in> set (fst (forecast_random_forest january_2024
          (sample_sklearn False) (sample_service three_days) 1
          (map (\<lambda>i. 172800 + 86400 * i) [1..1]) three_days))"
    by (simp only: f) simp
  from rf_band [OF this, of sample_prophet] show ?thesis
    using f by (simp add: rf_forecast_def)
qed

subsection \<open>Persistence\<close>

text \<open>
  C5. \<open>load_model\<close> after \<open>save_model\<close> of a trained model returns a model with the same
  fitted forest, scaler, feature names and name, and this model predicts as the saved one
  does, on every frame.
\<close>

theorem save_load_roundtrip:
  assumes "is_trained self0"
  shows "\<exists>loaded. load_model other filepath (save_model self0 filepath fs) = Inr loaded
           \<and> model loaded = model self0 \<and> scaler loaded = scaler self0
           \<and> feature_columns loaded = feature_columns self0
           \<and> model_name loaded = model_name self0
           \<and> (\<forall>df. predict cal lib loaded df = predict cal lib self0 df)"
proof -
  have "load_model other filepath (save_model self0 filepath fs) = Inr self0"
    using assms by (cases self0, cases other) (simp add: load_model_def save_model_def)
  then show ?thesis by simp
qed

theorem save_load_roundtrip_witness:
  "is_trained (random_forest (sample_service three_days))
   \<and> load_model new_rf_model (model_path 1)
        (save_model (random_forest (sample_service three_days)) (model_path 1) Map.empty)
      = Inr (random_forest (sample_service three_days))"
proof -
  obtain sc where "random_forest (sample_service three_days) =
                 new_rf_model\<lparr>feature_columns := default_features, scaler := Some sc,
                              model := Some (first_mean three_days), is_trained := True\<rparr>"
    using sample_service_rf [OF three_days_plain(1-4)] by blast
  then have t: "is_trained (random_forest (sample_service three_days))" by simp
  obtain loaded where l: "load_model new_rf_model (model_path 1)
        (save_model (random_forest (sample_service three_days)) (model_path 1) Map.empty)
      = Inr loaded"
    and "model loaded = model (random_forest (sample_service three_days))"
    and "scaler loaded = scaler (random_forest (sample_service three_days))"
    and "feature_columns loaded = feature_columns (random_forest (sample_service three_days))"
    and "model_name loaded = model_name (random_forest (sample_service three_days))"
    using save_load_roundtrip [OF t, of new_rf_model "model_path 1" Map.empty] by blast
  moreover have "is_trained loaded"
    using l by (auto simp: load_model_def save_model_def)
  ultimately have "loaded = random_forest (sample_service three_days)"
    using t by (cases loaded, cases "random_forest (sample_service three_days)") simp
  then show ?thesis using t l by simp
qed

subsection \<open>Training all variants\<close>

lemma train_inversion:
  assumes "train cal lib self0 df = (Inr metrics, self1)"
  shows "\<exists>sc m X_train_scaled X_test_scaled y_pred.
            scaler_fit lib (X_cols (prepare_data cal df))
              (take ((4 * length (rows df)) div 5) (X (prepare_data cal df))) = Inr sc
          \<and> scaler_transform lib sc (X_cols (prepare_data cal df))
              (take ((4 * length (rows df)) div 5) (X (prepare_data cal df))) = Inr X_train_scaled
          \<and> scaler_transform lib sc (X_cols (prepare_data cal df))
              (drop ((4 * length (rows df)) div 5) (X (prepare_data cal df))) = Inr X_test_scaled
          \<and> forest_fit lib X_train_scaled
              (take ((4 * length (rows df)) div 5) (y (prepare_data cal df))) = Inr m
          \<and> forest_predict lib m X_test_scaled = Inr y_pred
          \<and> calculate_metrics (drop ((4 * length (rows df)) div 5) (y (prepare_data cal df))) y_pred
              = Inr metrics
          \<and> scaler self1 = Some sc \<and> model self1 = Some m"
  using assms by (auto simp: train_def Let_def length_X split: sum.splits)

lemma train_returns:
  assumes "scaler_fit lib (X_cols (prepare_data cal df))
              (take ((4 * length (rows df)) div 5) (X (prepare_data cal df))) = Inr sc"
    and "scaler_transform lib sc (X_cols (prepare_data cal df))
              (take ((4 * length (rows df)) div 5) (X (prepare_data cal df))) = Inr X_train_scaled"
    and "scaler_transform lib sc (X_cols (prepare_data cal df))
              (drop ((4 * length (rows df)) div 5) (X (prepare_data cal df))) = Inr X_test_scaled"
    and "forest_fit lib X_train_scaled
              (take ((4 * length (rows df)) div 5) (y (prepare_data cal df))) = Inr m"
    and "forest_predict lib m X_test_scaled = Inr y_pred"
    and "calculate_metrics (drop ((4 * length (rows df)) div 5) (y (prepare_data cal df))) y_pred
              = Inr metrics"
  shows "fst (train cal lib self0 df) = Inr metrics"
  using assms by (simp add: train_def Let_def length_X)

lemma failing_train:
  "train cal failing_sklearn self0 df =
     (Inl LibraryError, self0\<lparr>feature_columns := X_cols (prepare_data cal df)\<rparr>)"
  by (simp add: train_def Let_def failing_sklearn_def)

lemma prophet_train_three_days:
  "prophet_train sample_prophet new_prophet_model three_days =
     (Inr None, \<lparr>p_model_name = ''Prophet'', p_model = Some (Fitted 110), p_is_trained = True\<rparr>)"
  by (simp add: prophet_train_def sample_prophet_def new_prophet_model_def three_days_def
        observation_def sort_values_def obs_def mean_def Let_def)

lemma sample_train_three_days:
  "\<exists>metrics rf. train january_2024 (sample_sklearn False) new_rf_model three_days
      = (Inr metrics, rf)"
  using sample_train [OF three_days_plain(3,4), of january_2024 False new_rf_model] by blast

text \<open>
  C9. For a hotel with data, \<open>train_models\<close> returns a dictionary with an entry for each
  of the two variants and raises nothing. Each variant is trained on the frame from its
  own state, whatever the other one does: an exception of \<open>train\<close> becomes the entry
  \<open>None\<close> of that variant, and Prophet is trained all the same.
\<close>

theorem train_models_isolates_failures:
  assumes "\<not> df_empty df"
  shows "dom (fst (train_models cal lib plib self0 hotel_id df)) = {''random_forest'', ''prophet''}
       \<and> fst (train_models cal lib plib self0 hotel_id df) ''random_forest'' =
           Some (case fst (train cal lib (random_forest self0) df) of
                   Inl e \<Rightarrow> None | Inr metrics \<Rightarrow> Some metrics)
       \<and> fst (train_models cal lib plib self0 hotel_id df) ''prophet'' =
           Some (case fst (prophet_train plib (prophet self0) df) of
                   Inl e \<Rightarrow> None | Inr metrics \<Rightarrow> metrics)
       \<and> random_forest (snd (train_models cal lib plib self0 hotel_id df))
           = snd (train cal lib (random_forest self0) df)
       \<and> prophet (snd (train_models cal lib plib self0 hotel_id df))
           = snd (prophet_train plib (prophet self0) df)"
  by (auto simp: train_models_results [OF assms])

theorem train_models_isolates_failures_witness:
  "\<not> df_empty three_days
   \<and> fst (train_models january_2024 failing_sklearn sample_prophet (new_service Map.empty) 1
            three_days) ''random_forest'' = Some None
   \<and> fst (train_models january_2024 failing_sklearn sample_prophet (new_service Map.empty) 1
            three_days) ''prophet'' = Some None
   \<and> is_trained (random_forest (snd (train_models january_2024 failing_sklearn sample_prophet
         (new_service Map.empty) 1 three_days))) = False
   \<and> p_is_trained (prophet (snd (train_models january_2024 failing_sklearn sample_prophet
         (new_service Map.empty) 1 three_days))) = True
   \<and> (\<exists>metrics. fst (train_models january_2024 (sample_sklearn False) no_prophet
                      (new_service Map.empty) 1 three_days) ''random_forest''
                 = Some (Some metrics))
   \<and> fst (train_models january_2024 (sample_sklearn False) no_prophet (new_service Map.empty) 1
            three_days) ''prophet'' = Some None"
proof -
  have ne: "\<not> df_empty three_days"
    by (simp add: df_empty_def three_days_def)
  have t: "train january_2024 failing_sklearn (random_forest (new_service Map.empty)) three_days
           = (Inl LibraryError,
              new_rf_model\<lparr>feature_columns := X_cols (prepare_data january_2024 three_days)\<rparr>)"
    by (simp add: new_service_def failing_train)
  have q: "prophet_train sample_prophet
             (prophet (new_service Map.empty :: (fitted_scaler, real, real) service)) three_days
           = (Inr None, \<lparr>p_model_name = ''Prophet'', p_model = Some (Fitted 110),
                          p_is_trained = True\<rparr>)"
    by (simp add: new_service_def prophet_train_three_days)
  obtain metrics rf where
    t': "train january_2024 (sample_sklearn False)
           (random_forest (new_service Map.empty :: (fitted_scaler, real, real) service))
           three_days = (Inr metrics, rf)"
    using sample_train_three_days by (auto simp: new_service_def)
  have q': "prophet_train no_prophet
             (prophet (new_service Map.empty :: (fitted_scaler, real, real) service)) three_days
           = (Inr None, new_prophet_model)"
    by (simp add: prophet_train_def no_prophet_def new_service_def)
  from train_models_isolates_failures [OF ne, of january_2024 failing_sklearn sample_prophet
         "new_service Map.empty" 1]
  have 1: "fst (train_models january_2024 failing_sklearn sample_prophet (new_service Map.empty) 1
            three_days) ''random_forest'' = Some None
   \<and> fst (train_models january_2024 failing_sklearn sample_prophet (new_service Map.empty) 1
            three_days) ''prophet'' = Some None
   \<and> is_trained (random_forest (snd (train_models january_2024 failing_sklearn sample_prophet
         (new_service Map.empty) 1 three_days))) = False
   \<and> p_is_trained (prophet (snd (train_models january_2024 failing_sklearn sample_prophet
         (new_service Map.empty) 1 three_days))) = True"
    unfolding t q by (simp add: new_rf_model_def)
  from train_models_isolates_failures [OF ne, of january_2024 "sample_sklearn False" no_prophet
         "new_service Map.empty" 1]
  have 2: "fst (train_models january_2024 (sample_sklearn False) no_prophet
                      (new_service Map.empty) 1 three_days) ''random_forest''
                 = Some (Some metrics)
   \<and> fst (train_models january_2024 (sample_sklearn False) no_prophet (new_service Map.empty) 1
            three_days) ''prophet'' = Some None"
    unfolding t' q' by simp
  show ?thesis using ne 1 2 by blast
qed

text \<open>
  C2, as amended. Training checks no minimum number of observations: \<open>train\<close> returns
  the metrics whenever the calls of the library on its split and the computation of the
  metrics succeed. Without data \<open>train_models\<close> returns the empty dictionary and writes
  nothing. With data it reports the metrics of the Random Forest variant and writes its
  artifact whenever \<open>train\<close> returned, and reports \<open>None\<close> and writes nothing when
  \<open>train\<close> raised.
\<close>

theorem train_models_persists_iff_trained:
  fixes df :: frame and cal :: calendar
  defines "p \<equiv> prepare_data cal df" and "k \<equiv> (4 * length (rows df)) div 5"
  shows
  "(\<forall>sc X_train_scaled X_test_scaled m y_pred metrics.
       scaler_fit lib (X_cols p) (take k (X p)) = Inr sc \<longrightarrow>
       scaler_transform lib sc (X_cols p) (take k (X p)) = Inr X_train_scaled \<longrightarrow>
       scaler_transform lib sc (X_cols p) (drop k (X p)) = Inr X_test_scaled \<longrightarrow>
       forest_fit lib X_train_scaled (take k (y p)) = Inr m \<longrightarrow>
       forest_predict lib m X_test_scaled = Inr y_pred \<longrightarrow>
       calculate_metrics (drop k (y p)) y_pred = Inr metrics \<longrightarrow>
       fst (train cal lib (random_forest self0) df) = Inr metrics)
   \<and> (df_empty df \<longrightarrow> train_models cal lib plib self0 hotel_id df = (Map.empty, self0))
   \<and> (\<not> df_empty df \<longrightarrow>
        (\<forall>e. fst (train cal lib (random_forest self0) df) = Inl e \<longrightarrow>
           fst (train_models cal lib plib self0 hotel_id df) ''random_forest'' = Some None
           \<and> files (snd (train_models cal lib plib self0 hotel_id df)) = files self0)
        \<and> (\<forall>metrics. fst (train cal lib (random_forest self0) df) = Inr metrics \<longrightarrow>
           fst (train_models cal lib plib self0 hotel_id df) ''random_forest'' = Some (Some metrics)
           \<and> files (snd (train_models cal lib plib self0 hotel_id df)) =
               save_model (snd (train cal lib (random_forest self0) df)) (model_path hotel_id)
                 (files self0)))"
proof -
  have 1: "\<forall>sc X_train_scaled X_test_scaled m y_pred metrics.
       scaler_fit lib (X_cols p) (take k (X p)) = Inr sc \<longrightarrow>
       scaler_transform lib sc (X_cols p) (take k (X p)) = Inr X_train_scaled \<longrightarrow>
       scaler_transform lib sc (X_cols p) (drop k (X p)) = Inr X_test_scaled \<longrightarrow>
       forest_fit lib X_train_scaled (take k (y p)) = Inr m \<longrightarrow>
       forest_predict lib m X_test_scaled = Inr y_pred \<longrightarrow>
       calculate_metrics (drop k (y p)) y_pred = Inr metrics \<longrightarrow>
       fst (train cal lib (random_forest self0) df) = Inr metrics"
    unfolding p_def k_def by (intro allI impI) (erule (5) train_returns)
  show ?thesis
  proof (cases "df_empty df")
    case True
    then show ?thesis using 1 by (simp add: train_models_empty)
  next
    case False
    then show ?thesis using 1 by (simp add: train_models_results [OF False])
  qed
qed

theorem train_models_persists_iff_trained_witness:
  "\<not> df_empty three_days
   \<and> (\<exists>metrics. fst (train january_2024 (sample_sklearn False) new_rf_model three_days)
                   = Inr metrics)
   \<and> files (snd (train_models january_2024 (sample_sklearn False) sample_prophet
                    (new_service Map.empty) 1 three_days)) (model_path 1) \<noteq> None"
proof -
  let ?lib = "sample_sklearn False"
  let ?svc = "new_service Map.empty :: (fitted_scaler, real, real) service"
  have ne: "\<not> df_empty three_days"
    by (simp add: df_empty_def three_days_def)
  obtain metrics0 rf where
    t: "train january_2024 ?lib new_rf_model three_days = (Inr metrics0, rf)"
    using sample_train_three_days by blast
  from train_inversion [OF t] obtain sc m X_train_scaled X_test_scaled y_pred where
    l: "scaler_fit ?lib (X_cols (prepare_data january_2024 three_days))
              (take ((4 * length (rows three_days)) div 5) (X (prepare_data january_2024 three_days)))
          = Inr sc"
       "scaler_transform ?lib sc (X_cols (prepare_data january_2024 three_days))
              (take ((4 * length (rows three_days)) div 5) (X (prepare_data january_2024 three_days)))
          = Inr X_train_scaled"
       "scaler_transform ?lib sc (X_cols (prepare_data january_2024 three_days))
              (drop ((4 * length (rows three_days)) div 5) (X (prepare_data january_2024 three_days)))
          = Inr X_test_scaled"
       "forest_fit ?lib X_train_scaled
              (take ((4 * length (rows three_days)) div 5) (y (prepare_data january_2024 three_days)))
          = Inr m"
       "forest_predict ?lib m X_test_scaled = Inr y_pred"
       "calculate_metrics
              (drop ((4 * length (rows three_days)) div 5) (y (prepare_data january_2024 three_days)))
              y_pred = Inr metrics0"
    by blast
  note inst = train_models_persists_iff_trained [of ?lib january_2024 three_days ?svc
               sample_prophet 1]
  have r: "random_forest ?svc = new_rf_model" by (simp add: new_service_def)
  from inst l have m: "fst (train january_2024 ?lib (random_forest ?svc) three_days) = Inr metrics0"
    by blast
  with inst ne have "files (snd (train_models january_2024 ?lib sample_prophet ?svc 1 three_days)) =
        save_model (snd (train january_2024 ?lib (random_forest ?svc) three_days)) (model_path 1)
          (files ?svc)"
    by blast
  then have "files (snd (train_models january_2024 ?lib sample_prophet ?svc 1 three_days))
               (model_path 1) \<noteq> None"
    by (simp add: save_model_def)
  then show ?thesis using ne m unfolding r by blast
qed

theorem three_observations_train_counterexample:
  "(\<exists>metrics. fst (train_models january_2024 (sample_sklearn False) sample_prophet
                     (new_service Map.empty) 1 three_days) ''random_forest''
                 = Some (Some metrics))
   \<and> files (sample_service three_days) (model_path 1) \<noteq> None
   \<and> p_is_trained (prophet (sample_service three_days))"
proof -
  have ne: "\<not> df_empty three_days"
    by (simp add: df_empty_def three_days_def)
  obtain metrics rf where
    t: "train january_2024 (sample_sklearn False) new_rf_model three_days = (Inr metrics, rf)"
    using sample_train_three_days by blast
  have 1: "fst (train_models january_2024 (sample_sklearn False) sample_prophet
                     (new_service Map.empty) 1 three_days) ''random_forest''
                 = Some (Some metrics)"
    by (simp add: train_models_results(1) [OF ne] new_service_def t)
  have 2: "files (sample_service three_days) (model_path 1) \<noteq> None"
    using sample_service_rf [OF three_days_plain(1-4)] by auto
  have 3: "p_is_trained (prophet (sample_service three_days))"
    by (simp add: sample_service_def train_models_results(3) [OF ne] new_service_def
          prophet_train_three_days)
  show ?thesis using 1 2 3 by blast
qed

subsection \<open>The confidence band\<close>














subsection \<open>The chronological split\<close>

lemma sorted_split:
  assumes "sorted (map f xs)" and "a \<in> set (take k xs)" and "b \<in> set (drop k xs)"
  shows "f a \<le> f b"
proof -
  have "sorted (map f (take k xs) @ map f (drop k xs))"
    using assms(1) by (simp flip: map_append)
  then show ?thesis using assms(2,3) by (auto simp: sorted_append)
qed

lemma obs_sort_key: "map obs (sort_key rdate xs) = sort_key fst (map obs xs)"
  using obs_sort_values [of "\<lparr>rows = xs, has_hotel_id = False, cols = []\<rparr>"]
  by (simp add: sort_values_def)

lemma three_days_sorted:
  "sort_key rdate (rows three_days) = [observation 0 100, observation 1 110, observation 2 120]"
  by (simp add: three_days_def observation_def)

text \<open>
  C4. When \<open>train\<close> returns, the rows of \<open>X\<close> and \<open>y\<close> are those of the frame in date
  order; the first \<open>k = \<lfloor>0.8 n\<rfloor>\<close> rows are the training split and the others the evaluation
  split, so no training row is later than an evaluation row. The scaler that the model
  keeps is fitted on the training split alone, and the same scaler transforms both
  splits; the forest is fitted on the scaled training split and evaluated on the scaled
  evaluation split.
\<close>

theorem train_chronological_split:
  fixes df :: frame and cal :: calendar
  defines "p \<equiv> prepare_data cal df"
    and "k \<equiv> (4 * length (rows df)) div 5"
    and "S \<equiv> sort_key rdate (rows df)"
  assumes "train cal lib self0 df = (Inr metrics, self1)"
  shows "(\<exists>sc m X_train_scaled X_test_scaled y_pred.
            scaler_fit lib (X_cols p) (take k (X p)) = Inr sc
          \<and> scaler_transform lib sc (X_cols p) (take k (X p)) = Inr X_train_scaled
          \<and> scaler_transform lib sc (X_cols p) (drop k (X p)) = Inr X_test_scaled
          \<and> forest_fit lib X_train_scaled (take k (y p)) = Inr m
          \<and> forest_predict lib m X_test_scaled = Inr y_pred
          \<and> calculate_metrics (drop k (y p)) y_pred = Inr metrics
          \<and> scaler self1 = Some sc \<and> model self1 = Some m)
       \<and> length (X p) = length S \<and> y p = map rrate S
       \<and> map obs (rows (engineered cal df)) = map obs S
       \<and> (\<forall>i < length S. X p ! i = map (\<lambda>c. filled (engineered cal df) c ! i) (X_cols p))
       \<and> (\<forall>a \<in> set (take k S). \<forall>b \<in> set (drop k S). rdate a \<le> rdate b)
       \<and> 5 * k \<le> 4 * length S \<and> 4 * length S < 5 * (k + 1)"
proof -
  have lib: "\<exists>sc m X_train_scaled X_test_scaled y_pred.
            scaler_fit lib (X_cols p) (take k (X p)) = Inr sc
          \<and> scaler_transform lib sc (X_cols p) (take k (X p)) = Inr X_train_scaled
          \<and> scaler_transform lib sc (X_cols p) (drop k (X p)) = Inr X_test_scaled
          \<and> forest_fit lib X_train_scaled (take k (y p)) = Inr m
          \<and> forest_predict lib m X_test_scaled = Inr y_pred
          \<and> calculate_metrics (drop k (y p)) y_pred = Inr metrics
          \<and> scaler self1 = Some sc \<and> model self1 = Some m"
    using assms(4) unfolding p_def k_def
    by (auto simp: train_def Let_def length_X split: sum.splits)
  have chron: "\<forall>a \<in> set (take k S). \<forall>b \<in> set (drop k S). rdate a \<le> rdate b"
    unfolding S_def using sorted_split [OF sorted_sort_key [of rdate "rows df"]] by blast
  have rowsX: "\<forall>i < length S. X p ! i = map (\<lambda>c. filled (engineered cal df) c ! i) (X_cols p)"
    unfolding S_def p_def by (simp add: prepare_data_def Let_def engineered_length)
  have "5 * k \<le> 4 * length S" "4 * length S < 5 * (k + 1)"
    unfolding k_def S_def by simp_all
  then show ?thesis
    using lib chron rowsX
    unfolding p_def S_def by (simp add: length_X prepare_y engineered_obs obs_sort_key)
qed

theorem train_chronological_split_witness:
  "\<exists>metrics self1.
      train january_2024 (sample_sklearn False) new_rf_model three_days = (Inr metrics, self1)
      \<and> scaler self1 \<noteq> None
      \<and> take 2 (y (prepare_data january_2024 three_days)) = [Some 100, Some 110]
      \<and> drop 2 (y (prepare_data january_2024 three_days)) = [Some 120]"
proof -
  obtain metrics self1 where
    t: "train january_2024 (sample_sklearn False) new_rf_model three_days = (Inr metrics, self1)"
    using sample_train_three_days by blast
  from train_chronological_split [OF t]
  have "scaler self1 \<noteq> None"
    and "y (prepare_data january_2024 three_days) = map rrate (sort_key rdate (rows three_days))"
    by auto
  then show ?thesis
    using t by (simp add: three_days_sorted observation_def)
qed

subsection \<open>The schema at prediction time\<close>





subsection \<open>Market insights\<close>

text \<open>
  C6. With no competitor observation among the rows of the market (every row belongs to
  the target hotel, or there is no row at all), \<open>get_market_insights\<close> returns the empty
  result, and the body of its \<open>try\<close> block returns it normally: nothing is raised.
\<close>

theorem market_insight_no_competitors:
  assumes "\<forall>r \<in> set competitor_rows. snd r = hotel_id"
  shows "market_insights_body hotel_found competitor_rows hotel_id = Inr None
         \<and> get_market_insights hotel_found competitor_rows hotel_id = None"
proof -
  have "filter (\<lambda>r. snd r \<noteq> hotel_id) competitor_rows = []"
    using assms by (simp add: filter_empty_conv)
  then have "market_insights_body hotel_found competitor_rows hotel_id = Inr None"
    by (simp add: market_insights_body_def Let_def)
  then show ?thesis
    by (simp add: get_market_insights_def)
qed

theorem market_insight_no_competitors_witness:
  "list_all (\<lambda>r. snd r = 1) [(100::real, 1::int), (110, 1)]
   \<and> market_insights_body True [(100, 1), (110, 1)] 1 = Inr None
   \<and> get_market_insights True [(100, 1), (110, 1)] 1 = None"
  using market_insight_no_competitors [of "[(100, 1), (110, 1)]" 1 True] by simp

text \<open>
  C7. The recommendation rules are those of the specification: at a target average of
  100 against a single competitor at 120 they give the ratio 5/6 and the advice to raise
  rates. But \<open>get_market_insights\<close> never delivers them: the \<open>price_percentile\<close> entry
  raises for every input that has both target and competitor rows, and the handler
  returns the empty dictionary.
\<close>

theorem market_insight_scenario_returns_empty:
  "get_market_insights True [(100, 1), (120, 2)] 1 = None
   \<and> market_insights_body True [(100, 1), (120, 2)] 1 = Inl AttributeError
   \<and> py_truediv (mean [100]) (mean [120]) = Inr (5 / 6)
   \<and> generate_recommendations (mean [100]) [120] =
       [''Opportunity to increase rates while remaining competitive'',
        ''You're pricing below all competitors - potential revenue opportunity'']"
  by (simp add: get_market_insights_def market_insights_body_def Let_def py_truediv_def
        float_of_series_def float_mean_def generate_recommendations_def mean_def)

end
